theory Spec2Isabelle
  imports Main
begin

section \<open>JavaScript values\<close>

text \<open>
  The server (\<^verbatim>\<open>mcp-airtable/airtable-mcp-server.js\<close>) is an Express application.
  Strings are lists of characters; a header value as Node delivers it has one character
  per byte. A value that is \<^verbatim>\<open>undefined\<close> in the source is \<open>None\<close> here.
  A number is kept as the text that JavaScript prints for it (\<^verbatim>\<open>String(n)\<close>, which is
  \<open>''0''\<close> for both zeros): the server never computes with a number of a body, it
  tests it for truth, prints it or passes it on.
\<close>

datatype json =
    JNull
  | JBool bool
  | JNum string
  | JStr string
  | JArr "json list"
  | JObj "(string \<times> json) list"

text \<open>Parsed query-string values (\<^verbatim>\<open>req.query\<close>): strings, arrays and nested objects.\<close>

datatype qvalue =
    QStr string
  | QArr "qvalue list"
  | QObj "(string \<times> qvalue) list"

text \<open>Truthiness of a value that may be undefined: \<^verbatim>\<open>!x\<close> is \<open>\<not> truthy x\<close>.\<close>

fun truthy :: "json option \<Rightarrow> bool" where
  "truthy None = False"
| "truthy (Some JNull) = False"
| "truthy (Some (JBool b)) = b"
| "truthy (Some (JNum n)) = (n \<noteq> ''0'' \<and> n \<noteq> ''NaN'')"
| "truthy (Some (JStr s)) = (s \<noteq> [])"
| "truthy (Some (JArr xs)) = True"
| "truthy (Some (JObj kvs)) = True"

fun truthy_q :: "qvalue option \<Rightarrow> bool" where
  "truthy_q None = False"
| "truthy_q (Some (QStr s)) = (s \<noteq> [])"
| "truthy_q (Some (QArr xs)) = True"
| "truthy_q (Some (QObj kvs)) = True"

text \<open>
  Property access \<^verbatim>\<open>v.k\<close> for the own keys of a parsed JSON object (the last
  duplicate of a key wins in \<^verbatim>\<open>JSON.parse\<close>); the keys read by the server are never
  inherited ones, so every other value has none of them.
\<close>

fun get_field :: "json \<Rightarrow> string \<Rightarrow> json option" where
  "get_field (JObj kvs) k = map_of (rev kvs) k"
| "get_field v k = None"

text \<open>\<^verbatim>\<open>Object.keys(v).length\<close>.\<close>

fun keys_length :: "json \<Rightarrow> nat" where
  "keys_length (JObj kvs) = length (remdups (map fst kvs))"
| "keys_length (JArr xs) = length xs"
| "keys_length (JStr s) = length s"
| "keys_length v = 0"

subsection \<open>String helpers\<close>

text \<open>\<^verbatim>\<open>s.split(c)\<close> for a one-character separator: never empty, \<open>''''\<close> gives \<open>['''']\<close>.\<close>

fun split_on :: "char \<Rightarrow> string \<Rightarrow> string list" where
  "split_on c [] = [[]]"
| "split_on c (x # xs) =
     (if x = c then [] # split_on c xs
      else (case split_on c xs of
              [] \<Rightarrow> [[x]]
            | w # ws \<Rightarrow> (x # w) # ws))"

text \<open>\<^verbatim>\<open>xs.join(sep)\<close> on an array of strings.\<close>

fun join :: "string \<Rightarrow> string list \<Rightarrow> string" where
  "join sep [] = []"
| "join sep [x] = x"
| "join sep (x # y # ys) = x @ sep @ join sep (y # ys)"

text \<open>
  \<^verbatim>\<open>s.toLowerCase()\<close> on the characters a header value can hold (code points up to
  255): the letters A to Z, and the accented capitals 192 to 222 except the
  multiplication sign 215, move up by 32.
\<close>

definition to_lower_char :: "char \<Rightarrow> char" where
  "to_lower_char c =
     (let n = (of_char c :: nat)
      in if (65 \<le> n \<and> n \<le> 90) \<or> (192 \<le> n \<and> n \<le> 222 \<and> n \<noteq> 215)
         then char_of (n + 32) else c)"

definition toLowerCase :: "string \<Rightarrow> string" where
  "toLowerCase s = map to_lower_char s"

text \<open>\<^verbatim>\<open>s.trim()\<close>: white space is tab to carriage return, space and no-break space.\<close>

definition is_space :: "char \<Rightarrow> bool" where
  "is_space c = (let n = (of_char c :: nat) in (9 \<le> n \<and> n \<le> 13) \<or> n = 32 \<or> n = 160)"

definition trim :: "string \<Rightarrow> string" where
  "trim s = rev (dropWhile is_space (rev (dropWhile is_space s)))"

definition startsWith :: "string \<Rightarrow> string \<Rightarrow> bool" where
  "startsWith s p = (take (length p) s = p)"

text \<open>
  \<^verbatim>\<open>String(v)\<close>, as the \<^verbatim>\<open>Error\<close> constructor applies it to its message. An array
  prints its elements separated by commas, \<^verbatim>\<open>null\<close> among them as nothing. An object
  prints as \<^verbatim>\<open>[object Object]\<close> through the \<^verbatim>\<open>toString\<close> it inherits; when it has
  a key \<^verbatim>\<open>toString\<close> of its own, whose value parsed from JSON is never a function,
  neither \<^verbatim>\<open>toString\<close> nor \<^verbatim>\<open>valueOf\<close> yields a primitive and the conversion throws
  the TypeError \<^verbatim>\<open>Cannot convert object to primitive value\<close>: the result \<open>None\<close>.
\<close>

fun js_string :: "json \<Rightarrow> string option" where
  "js_string JNull = Some ''null''"
| "js_string (JBool b) = Some (if b then ''true'' else ''false'')"
| "js_string (JNum n) = Some n"
| "js_string (JStr s) = Some s"
| "js_string (JArr xs) =
     map_option (join '','') (those (map (\<lambda>x. if x = JNull then Some [] else js_string x) xs))"
| "js_string (JObj kvs) =
     (if ''toString'' \<in> fst ` set kvs then None else Some ''[object Object]'')"

section \<open>Thrown errors and responses\<close>

text \<open>
  An error object as the server inspects it: its message and the \<^verbatim>\<open>status\<close>,
  \<^verbatim>\<open>type\<close> and \<^verbatim>\<open>details\<close> properties that \<^verbatim>\<open>_handleError\<close> attaches.
\<close>

record js_error =
  message :: string
  status :: "nat option"
  etype :: "json option"
  details :: "json option"

definition Error :: "string \<Rightarrow> js_error" where
  "Error m = \<lparr>message = m, status = None, etype = None, details = None\<rparr>"

text \<open>
  The bodies the server sends: upstream data as it is (\<^verbatim>\<open>res.json(data)\<close>), the object
  \<^verbatim>\<open>{ error: { type, message, details } }\<close> (\<open>details\<close> absent when \<open>None\<close> is given),
  and the flat \<^verbatim>\<open>{ error, message }\<close> object configured for the rate limiters.
\<close>

datatype body =
    DataBody "json option"
  | ErrorBody json string "json option"
  | LimitBody string string

record response =
  code :: nat
  content :: body

definition error_response :: "nat \<Rightarrow> string \<Rightarrow> string \<Rightarrow> response" where
  "error_response st ty msg = \<lparr>code = st, content = ErrorBody (JStr ty) msg None\<rparr>"

section \<open>Models\<close>

subsection \<open>BillingPlanModel\<close>

definition FREE :: string where "FREE = ''free''"
definition TEAMS :: string where "TEAMS = ''teams''"
definition BUSINESS :: string where "BUSINESS = ''business''"
definition ENTERPRISE_SCALE :: string where "ENTERPRISE_SCALE = ''enterprise_scale''"

definition BASE_DATA :: string where "BASE_DATA = ''base_data''"
definition VIEWS :: string where "VIEWS = ''views''"
definition SCHEMA_MODIFICATION :: string where "SCHEMA_MODIFICATION = ''schema_modification''"
definition WEBHOOKS :: string where "WEBHOOKS = ''webhooks''"
definition SCIM_USER_MANAGEMENT :: string where "SCIM_USER_MANAGEMENT = ''scim_user_management''"
definition ENTERPRISE_API :: string where "ENTERPRISE_API = ''enterprise_api''"
definition CHANGE_EVENTS :: string where "CHANGE_EVENTS = ''change_events''"

text \<open>
  A plan table: the entries of the object in the order in which \<^verbatim>\<open>Object.entries\<close>
  yields them, which is the order they are written in for plan names that are not numbers.
\<close>

type_synonym plan_table = "(string \<times> string list) list"

definition PLAN_FEATURES :: plan_table where
  "PLAN_FEATURES =
     [(FREE, [BASE_DATA]),
      (TEAMS, [BASE_DATA]),
      (BUSINESS, [BASE_DATA, SCIM_USER_MANAGEMENT]),
      (ENTERPRISE_SCALE, [BASE_DATA, VIEWS, SCHEMA_MODIFICATION, WEBHOOKS,
         SCIM_USER_MANAGEMENT, ENTERPRISE_API, CHANGE_EVENTS])]"

text \<open>
  Property names every object inherits: \<^verbatim>\<open>table[k]\<close> is truthy for them although
  \<open>k\<close> is no key of the table, and calling an array method on the value is a TypeError.
\<close>

definition object_prototype_keys :: "string list" where
  "object_prototype_keys =
     [''constructor'', ''__proto__'', ''hasOwnProperty'', ''isPrototypeOf'',
      ''propertyIsEnumerable'', ''toLocaleString'', ''toString'', ''valueOf'',
      ''__defineGetter__'', ''__defineSetter__'', ''__lookupGetter__'', ''__lookupSetter__'']"

text \<open>\<^verbatim>\<open>hasFeature(plan, feature)\<close>, over the table it reads; \<open>Inl\<close> is the error thrown.\<close>

definition hasFeature_in :: "plan_table \<Rightarrow> string \<Rightarrow> string \<Rightarrow> js_error + bool" where
  "hasFeature_in tbl plan feature =
     (case map_of tbl plan of
        Some features \<Rightarrow> Inr (feature \<in> set features)
      | None \<Rightarrow>
          if plan \<in> set object_prototype_keys
          then Inl (Error ''this.PLAN_FEATURES[plan].includes is not a function'')
          else Inl (Error (''Unknown billing plan: '' @ plan)))"

definition hasFeature :: "string \<Rightarrow> string \<Rightarrow> js_error + bool" where
  "hasFeature = hasFeature_in PLAN_FEATURES"

text \<open>\<^verbatim>\<open>getMinimumPlanForFeature(feature)\<close>: the loop over \<^verbatim>\<open>Object.entries\<close>.\<close>

fun getMinimumPlanForFeature_in :: "plan_table \<Rightarrow> string \<Rightarrow> js_error + string" where
  "getMinimumPlanForFeature_in [] feature = Inl (Error (''Unknown feature: '' @ feature))"
| "getMinimumPlanForFeature_in ((plan, features) # rest) feature =
     (if feature \<in> set features then Inr plan
      else getMinimumPlanForFeature_in rest feature)"

definition getMinimumPlanForFeature :: "string \<Rightarrow> js_error + string" where
  "getMinimumPlanForFeature = getMinimumPlanForFeature_in PLAN_FEATURES"

subsection \<open>TokenScopeModel\<close>

definition RECORDS_READ :: string where "RECORDS_READ = ''data.records:read''"
definition RECORDS_WRITE :: string where "RECORDS_WRITE = ''data.records:write''"
definition RECORD_COMMENTS_READ :: string where "RECORD_COMMENTS_READ = ''data.recordComments:read''"
definition RECORD_COMMENTS_WRITE :: string where "RECORD_COMMENTS_WRITE = ''data.recordComments:write''"
definition SCHEMA_BASES_READ :: string where "SCHEMA_BASES_READ = ''schema.bases:read''"
definition SCHEMA_BASES_WRITE :: string where "SCHEMA_BASES_WRITE = ''schema.bases:write''"
definition WEBHOOK_MANAGE :: string where "WEBHOOK_MANAGE = ''webhook:manage''"
definition ENTERPRISE_AUDIT_LOGS_READ :: string where
  "ENTERPRISE_AUDIT_LOGS_READ = ''enterprise.auditLogs:read''"
definition ENTERPRISE_USER_READ :: string where "ENTERPRISE_USER_READ = ''enterprise.user:read''"

definition ENDPOINT_SCOPES :: "(string \<times> string list) list" where
  "ENDPOINT_SCOPES =
     [(''getTableRecords'', [RECORDS_READ]),
      (''getRecord'', [RECORDS_READ]),
      (''createRecords'', [RECORDS_WRITE]),
      (''updateRecords'', [RECORDS_WRITE]),
      (''deleteRecords'', [RECORDS_WRITE]),
      (''getComments'', [RECORD_COMMENTS_READ]),
      (''createComment'', [RECORD_COMMENTS_WRITE]),
      (''deleteComment'', [RECORD_COMMENTS_WRITE]),
      (''updateComment'', [RECORD_COMMENTS_WRITE]),
      (''getBases'', [SCHEMA_BASES_READ]),
      (''getBaseSchema'', [SCHEMA_BASES_READ]),
      (''createField'', [SCHEMA_BASES_WRITE]),
      (''updateField'', [SCHEMA_BASES_WRITE]),
      (''listWebhooks'', [WEBHOOK_MANAGE]),
      (''createWebhook'', [WEBHOOK_MANAGE]),
      (''deleteWebhook'', [WEBHOOK_MANAGE]),
      (''getAuditLogs'', [ENTERPRISE_AUDIT_LOGS_READ]),
      (''getEnterpriseUsers'', [ENTERPRISE_USER_READ])]"

text \<open>
  \<^verbatim>\<open>hasRequiredScope(tokenScopes, requiredScope)\<close>; with \<open>tokenScopes\<close> undefined the
  call of \<^verbatim>\<open>includes\<close> is a TypeError.
\<close>

definition hasRequiredScope :: "string list option \<Rightarrow> string \<Rightarrow> js_error + bool" where
  "hasRequiredScope tokenScopes requiredScope =
     (case tokenScopes of
        None \<Rightarrow> Inl (Error ''Cannot read properties of undefined (reading 'includes')'')
      | Some scopes \<Rightarrow> Inr (requiredScope \<in> set scopes))"

text \<open>\<^verbatim>\<open>requiredScopes.every(scope => hasRequiredScope(tokenScopes, scope))\<close>.\<close>

fun every_scope :: "string list option \<Rightarrow> string list \<Rightarrow> js_error + bool" where
  "every_scope tokenScopes [] = Inr True"
| "every_scope tokenScopes (scope # rest) =
     (case hasRequiredScope tokenScopes scope of
        Inl e \<Rightarrow> Inl e
      | Inr False \<Rightarrow> Inr False
      | Inr True \<Rightarrow> every_scope tokenScopes rest)"

text \<open>\<^verbatim>\<open>ENDPOINT_SCOPES[endpoint] || []\<close>, \<open>None\<close> for an inherited, non-array value.\<close>

definition requiredScopes_for :: "string \<Rightarrow> string list option" where
  "requiredScopes_for endpoint =
     (case map_of ENDPOINT_SCOPES endpoint of
        Some scopes \<Rightarrow> Some scopes
      | None \<Rightarrow> if endpoint \<in> set object_prototype_keys then None else Some [])"

definition hasRequiredScopesForEndpoint :: "string list option \<Rightarrow> string \<Rightarrow> js_error + bool" where
  "hasRequiredScopesForEndpoint tokenScopes endpoint =
     (case requiredScopes_for endpoint of
        None \<Rightarrow> Inl (Error ''requiredScopes.every is not a function'')
      | Some requiredScopes \<Rightarrow> every_scope tokenScopes requiredScopes)"

section \<open>Requests\<close>

text \<open>
  The request object: the headers the server reads (Node gives header names in lower
  case), the route parameters, the parsed query and body, and the properties that
  \<^verbatim>\<open>authMiddleware\<close> attaches (\<open>token\<close>, \<open>billingPlan\<close>, \<open>tokenScopes\<close>, undefined on
  arrival). \<open>client_key\<close> is the key under which the rate limiters count the request and
  \<open>arrival\<close> the time of the request in milliseconds.
\<close>

record req =
  authorization :: "string option"
  x_billing_plan :: "string option"
  x_token_scopes :: "string option"
  x_confirm_destructive_operation :: "string option"
  params :: "(string \<times> string) list"
  query :: "(string \<times> qvalue) list"
  body :: json
  client_key :: string
  arrival :: nat
  token :: "string option"
  billingPlan :: "string option"
  tokenScopes :: "string list option"

text \<open>A middleware either calls \<^verbatim>\<open>next()\<close> or sends a response.\<close>

datatype step = Next req | Respond response

text \<open>
  A route parameter; undefined and the empty string are both falsy, and a truthy
  parameter is its string, so an undefined one is read as the empty string.
\<close>

definition param :: "req \<Rightarrow> string \<Rightarrow> string" where
  "param r k = (case map_of (params r) k of None \<Rightarrow> [] | Some v \<Rightarrow> v)"

section \<open>Middleware\<close>

definition authentication_required :: response where
  "authentication_required =
     error_response 401 ''INVALID_REQUEST'' ''Authentication required. Please provide a valid token.''"

definition authMiddleware :: "req \<Rightarrow> step" where
  "authMiddleware r =
     (case authorization r of
        None \<Rightarrow> Respond authentication_required
      | Some authHeader \<Rightarrow>
          if authHeader = [] \<or> \<not> startsWith authHeader ''Bearer ''
          then Respond authentication_required
          else (case split_on CHR '' '' authHeader of
                  _ # tok # _ \<Rightarrow>
                    if tok = [] then Respond authentication_required
                    else Next (r\<lparr>token := Some tok,
                      billingPlan := Some (case x_billing_plan r of
                                             None \<Rightarrow> FREE
                                           | Some p \<Rightarrow> if p = [] then FREE else p),
                      tokenScopes := Some (case x_token_scopes r of
                                             None \<Rightarrow> [RECORDS_READ]
                                           | Some s \<Rightarrow> if s = [] then [RECORDS_READ]
                                                       else split_on CHR '','' s)\<rparr>)
                | _ \<Rightarrow> Respond authentication_required))"

text \<open>
  \<^verbatim>\<open>featureCheckMiddleware(feature)\<close>, over the plan table; an undefined
  \<open>billingPlan\<close> is the property key \<open>undefined\<close>. An error thrown inside is caught
  and answered with status 500.
\<close>

definition featureCheckMiddleware_in :: "plan_table \<Rightarrow> string \<Rightarrow> req \<Rightarrow> step" where
  "featureCheckMiddleware_in tbl feature r =
     (case hasFeature_in tbl (case billingPlan r of None \<Rightarrow> ''undefined'' | Some p \<Rightarrow> p) feature of
        Inl e \<Rightarrow> Respond (error_response 500 ''SERVER_ERROR'' ''Failed to check feature availability.'')
      | Inr True \<Rightarrow> Next r
      | Inr False \<Rightarrow>
          (case getMinimumPlanForFeature_in tbl feature of
             Inl e \<Rightarrow> Respond (error_response 500 ''SERVER_ERROR'' ''Failed to check feature availability.'')
           | Inr minimumPlan \<Rightarrow>
               Respond (error_response 403 ''FEATURE_UNAVAILABLE''
                 (''This feature requires the '' @ minimumPlan @ '' plan or higher.''))))"

definition featureCheckMiddleware :: "string \<Rightarrow> req \<Rightarrow> step" where
  "featureCheckMiddleware = featureCheckMiddleware_in PLAN_FEATURES"

definition scopeCheckMiddleware :: "string \<Rightarrow> req \<Rightarrow> step" where
  "scopeCheckMiddleware endpoint r =
     (case hasRequiredScopesForEndpoint (tokenScopes r) endpoint of
        Inl e \<Rightarrow> Respond (error_response 500 ''SERVER_ERROR'' ''Failed to check token scopes.'')
      | Inr True \<Rightarrow> Next r
      | Inr False \<Rightarrow>
          Respond (error_response 403 ''INSUFFICIENT_PERMISSIONS''
            (''This operation requires the following scopes: '' @
               join '', '' (case requiredScopes_for endpoint of None \<Rightarrow> [] | Some s \<Rightarrow> s))))"

text \<open>
  The test \<^verbatim>\<open>!confirmation || confirmation.toLowerCase() !== 'true'\<close> on the header
  \<^verbatim>\<open>x-confirm-destructive-operation\<close>, written out in the confirmation middleware and
  again in the handler of \<^verbatim>\<open>updateRecords\<close>.
\<close>

definition unconfirmed :: "req \<Rightarrow> bool" where
  "unconfirmed r =
     (case x_confirm_destructive_operation r of
        None \<Rightarrow> True
      | Some confirmation \<Rightarrow> confirmation = [] \<or> toLowerCase confirmation \<noteq> ''true'')"

definition confirmation_required :: response where
  \<open>confirmation_required =
     error_response 400 ''CONFIRMATION_REQUIRED''
       ''This is a destructive operation. Please confirm by setting the X-Confirm-Destructive-Operation header to "true".''\<close>

definition confirmDestructiveOperationMiddleware :: "req \<Rightarrow> step" where
  "confirmDestructiveOperationMiddleware r =
     (if unconfirmed r then Respond confirmation_required else Next r)"

section \<open>Rate limiting\<close>

text \<open>
  Modelled from the spec: the \<^verbatim>\<open>express-rate-limit\<close> package that the server configures
  is not part of the sources. \<open>tryAcquire\<close> follows the specification's words: fixed-window
  counting per key, the window starting at the first request observed, the count
  incremented on each \<open>Allowed\<close> decision, \<open>Denied\<close> with the time to the next window
  boundary once the count has reached the limit.
\<close>

record bucket =
  windowStart :: nat
  count :: nat

type_synonym store = "string \<Rightarrow> bucket option"

datatype decision = Allowed | Denied nat

definition tryAcquire :: "string \<Rightarrow> nat \<Rightarrow> nat \<Rightarrow> nat \<Rightarrow> store \<Rightarrow> decision \<times> store" where
  "tryAcquire key limit windowDuration now st =
     (let b = (case st key of
                 None \<Rightarrow> \<lparr>windowStart = now, count = 0\<rparr>
               | Some b \<Rightarrow> if windowStart b + windowDuration \<le> now
                           then \<lparr>windowStart = now, count = 0\<rparr> else b)
      in if limit \<le> count b then (Denied (windowStart b + windowDuration - now), st)
         else (Allowed, st(key \<mapsto> b\<lparr>count := count b + 1\<rparr>)))"

text \<open>The options the server passes to \<^verbatim>\<open>rateLimit\<close>.\<close>

record limiter_options =
  windowMs :: nat
  max_requests :: nat
  message_error :: string
  message_text :: string

definition configureRateLimiter :: limiter_options where
  "configureRateLimiter =
     \<lparr>windowMs = 1000, max_requests = 5, message_error = ''RATE_LIMIT_REACHED'',
      message_text = ''Rate limit exceeded. Please try again later.''\<rparr>"

definition configureUserRateLimiter :: limiter_options where
  "configureUserRateLimiter =
     \<lparr>windowMs = 1000, max_requests = 50, message_error = ''USER_RATE_LIMIT_REACHED'',
      message_text = ''User rate limit exceeded. Please try again later.''\<rparr>"

text \<open>
  The middleware a limiter yields: a denied request is answered with status 429 and the
  configured message object as body.
\<close>

definition rateLimit :: "limiter_options \<Rightarrow> req \<Rightarrow> store \<Rightarrow> response option \<times> store" where
  "rateLimit opts r st =
     (case tryAcquire (client_key r) (max_requests opts) (windowMs opts) (arrival r) st of
        (Allowed, st') \<Rightarrow> (None, st')
      | (Denied retryAfter, st') \<Rightarrow>
          (Some \<lparr>code = 429, content = LimitBody (message_error opts) (message_text opts)\<rparr>, st'))"

text \<open>The two limiter instances built at module load, each with a store of its own.\<close>

record limiters =
  base_store :: store
  user_store :: store

section \<open>The upstream client\<close>

text \<open>The routes of the server, named as the controller entries.\<close>

datatype endpoint =
    getBases | getBaseSchema
  | getTableRecords | getRecord | createRecords | updateRecords | deleteRecords
  | createField | updateField
  | listWebhooks | createWebhook | deleteWebhook
  | getAuditLogs | getEnterpriseUsers

text \<open>A call of a method of \<^verbatim>\<open>AirtableProvider\<close> with its arguments.\<close>

datatype arg =
    AStr string
  | AVal "json option"
  | AQuery "(string \<times> qvalue) list"
  | AIds "qvalue list"
  | AOpts "(string \<times> json option) list"

datatype provider_call = Provider endpoint "arg list"

text \<open>
  What one HTTP request to Airtable comes to for axios: a response with a status in the
  2xx range, a response with any other status (and its parsed body), no response at all,
  or a failure while setting the request up.
\<close>

datatype axios_error =
    HttpError nat "json option"
  | NoResponse
  | SetupError string

datatype axios_outcome = Fulfilled "json option" | Rejected axios_error

text \<open>The upstream as a script: the outcome of the attempt with a given number.\<close>

type_synonym upstream = "nat \<Rightarrow> axios_outcome"

text \<open>
  The response interceptor installed by the constructor: on status 429 it waits
  30 seconds and issues the request again through the same axios instance, whose
  interceptor handles the outcome of that request in turn; any other error is rejected.
  The result is the final outcome and the number of the attempt that produced it,
  \<open>None\<close> when no attempt ever does.
\<close>

partial_function (option) api :: "upstream \<Rightarrow> nat \<Rightarrow> (axios_outcome \<times> nat) option" where
  "api up n =
     (case up n of
        Fulfilled d \<Rightarrow> Some (Fulfilled d, n)
      | Rejected e \<Rightarrow>
          (case e of
             HttpError st d \<Rightarrow> if st = 429 then api up (Suc n) else Some (Rejected e, n)
           | NoResponse \<Rightarrow> Some (Rejected e, n)
           | SetupError m \<Rightarrow> Some (Rejected e, n)))"

declare api.simps [code]

text \<open>The interceptor's test \<^verbatim>\<open>response && response.status === 429\<close> on an outcome.\<close>

definition overload :: "axios_outcome \<Rightarrow> bool" where
  "overload out = (case out of Rejected (HttpError st d) \<Rightarrow> st = 429 | _ \<Rightarrow> False)"

text \<open>
  \<^verbatim>\<open>_handleError(error)\<close>: the error it throws, which is the enhanced error it builds
  or the TypeError of a step that fails before: reading \<^verbatim>\<open>error\<close> from a body that is
  undefined or \<^verbatim>\<open>null\<close>, or converting the message for \<^verbatim>\<open>new Error\<close>.
\<close>

definition handleError :: "axios_error \<Rightarrow> js_error" where
  "handleError error =
     (case error of
        HttpError statusCode dat \<Rightarrow>
          (case dat of
             None \<Rightarrow> Error ''Cannot read properties of undefined (reading 'error')''
           | Some JNull \<Rightarrow> Error ''Cannot read properties of null (reading 'error')''
           | Some d \<Rightarrow>
               (let errorData = (case get_field d ''error'' of
                                   None \<Rightarrow> JObj []
                                 | Some e \<Rightarrow> if truthy (Some e) then e else JObj [])
                in case (case get_field errorData ''message'' of
                           None \<Rightarrow> Some ''Airtable API error''
                         | Some m \<Rightarrow> if truthy (Some m) then js_string m
                                     else Some ''Airtable API error'') of
                     None \<Rightarrow> Error ''Cannot convert object to primitive value''
                   | Some msg \<Rightarrow>
                       \<lparr>message = msg,
                        status = Some statusCode,
                        etype = get_field errorData ''type'',
                        details = Some errorData\<rparr>))
      | NoResponse \<Rightarrow> Error ''No response received from Airtable API''
      | SetupError m \<Rightarrow> Error m)"

text \<open>\<^verbatim>\<open>handleErrorResponse(res, error)\<close>: the response it sends.\<close>

definition handleErrorResponse :: "js_error \<Rightarrow> response" where
  "handleErrorResponse error =
     (case (status error, etype error) of
        (Some st, Some ty) \<Rightarrow>
          if st \<noteq> 0 \<and> truthy (Some ty)
          then \<lparr>code = st, content = ErrorBody ty (message error) (details error)\<rparr>
          else error_response 500 ''SERVER_ERROR''
                 (if message error \<noteq> [] then message error else ''An unexpected error occurred'')
      | _ \<Rightarrow> error_response 500 ''SERVER_ERROR''
                 (if message error \<noteq> [] then message error else ''An unexpected error occurred''))"

section \<open>Controllers\<close>

definition invalid_request :: "string \<Rightarrow> response" where
  "invalid_request msg = error_response 400 ''INVALID_REQUEST'' msg"

text \<open>
  The part of each handler before the provider is built: either a response sent at
  once, or the provider call the handler goes on to make.
\<close>

definition getBases_handler :: "req \<Rightarrow> response + provider_call" where
  "getBases_handler r = Inr (Provider getBases [])"

definition getBaseSchema_handler :: "req \<Rightarrow> response + provider_call" where
  "getBaseSchema_handler r =
     (let baseId = param r ''baseId''
      in if baseId = [] then Inl (invalid_request ''Base ID is required'')
         else Inr (Provider getBaseSchema [AStr baseId]))"

definition getTableRecords_handler :: "req \<Rightarrow> response + provider_call" where
  "getTableRecords_handler r =
     (let baseId = param r ''baseId''; tableIdOrName = param r ''tableIdOrName'';
          queryParams = query r
      in if baseId = [] \<or> tableIdOrName = []
         then Inl (invalid_request ''Base ID and Table ID/Name are required'')
         else Inr (Provider getTableRecords [AStr baseId, AStr tableIdOrName, AQuery queryParams]))"

definition getRecord_handler :: "req \<Rightarrow> response + provider_call" where
  "getRecord_handler r =
     (let baseId = param r ''baseId''; tableIdOrName = param r ''tableIdOrName'';
          recordId = param r ''recordId''
      in if baseId = [] \<or> tableIdOrName = [] \<or> recordId = []
         then Inl (invalid_request ''Base ID, Table ID/Name, and Record ID are required'')
         else Inr (Provider getRecord [AStr baseId, AStr tableIdOrName, AStr recordId]))"

definition createRecords_handler :: "req \<Rightarrow> response + provider_call" where
  "createRecords_handler r =
     (let baseId = param r ''baseId''; tableIdOrName = param r ''tableIdOrName'';
          records = get_field (body r) ''records'';
          typecast = get_field (body r) ''typecast'';
          returnFieldsByFieldId = get_field (body r) ''returnFieldsByFieldId''
      in if baseId = [] \<or> tableIdOrName = []
         then Inl (invalid_request ''Base ID and Table ID/Name are required'')
         else if \<not> truthy records \<or> (case records of Some (JArr rs) \<Rightarrow> length rs = 0 | _ \<Rightarrow> False)
         then Inl (invalid_request ''Records are required'')
         else if (case records of Some (JArr rs) \<Rightarrow> length rs > 10 | _ \<Rightarrow> False)
         then Inl (invalid_request ''Maximum of 10 records can be created in a single request'')
         else Inr (Provider createRecords
                [AStr baseId, AStr tableIdOrName, AVal records,
                 AOpts [(''typecast'', typecast),
                        (''returnFieldsByFieldId'', returnFieldsByFieldId)]]))"

definition destructive_update_unconfirmed :: response where
  \<open>destructive_update_unconfirmed =
     error_response 400 ''CONFIRMATION_REQUIRED''
       ''This is a destructive update (PUT) that will clear all unincluded cell values. Please confirm by setting the X-Confirm-Destructive-Operation header to "true".''\<close>

definition updateRecords_handler :: "req \<Rightarrow> response + provider_call" where
  "updateRecords_handler r =
     (let baseId = param r ''baseId''; tableIdOrName = param r ''tableIdOrName'';
          records = get_field (body r) ''records'';
          typecast = get_field (body r) ''typecast'';
          returnFieldsByFieldId = get_field (body r) ''returnFieldsByFieldId'';
          performUpsert = get_field (body r) ''performUpsert'';
          destructive = get_field (body r) ''destructive''
      in if baseId = [] \<or> tableIdOrName = []
         then Inl (invalid_request ''Base ID and Table ID/Name are required'')
         else if \<not> truthy records \<or> (case records of Some (JArr rs) \<Rightarrow> length rs = 0 | _ \<Rightarrow> True)
         then Inl (invalid_request ''Records array is required'')
         else if (case records of Some (JArr rs) \<Rightarrow> length rs > 10 | _ \<Rightarrow> False)
         then Inl (invalid_request ''Maximum of 10 records can be updated in a single request'')
         else if truthy destructive \<and> unconfirmed r
         then Inl destructive_update_unconfirmed
         else Inr (Provider updateRecords
                [AStr baseId, AStr tableIdOrName, AVal records,
                 AOpts [(''typecast'', typecast),
                        (''returnFieldsByFieldId'', returnFieldsByFieldId),
                        (''performUpsert'', performUpsert),
                        (''destructive'', destructive)]]))"

definition deleteRecords_handler :: "req \<Rightarrow> response + provider_call" where
  "deleteRecords_handler r =
     (let baseId = param r ''baseId''; tableIdOrName = param r ''tableIdOrName'';
          records = map_of (query r) ''records''
      in if baseId = [] \<or> tableIdOrName = []
         then Inl (invalid_request ''Base ID and Table ID/Name are required'')
         else if \<not> truthy_q records
         then Inl (invalid_request ''Record IDs are required'')
         else (case (case records of
                       Some (QArr ids) \<Rightarrow> Some ids
                     | Some (QStr s) \<Rightarrow> Some (map (\<lambda>id. QStr (trim id)) (split_on CHR '','' s))
                     | _ \<Rightarrow> None) of
                 None \<Rightarrow> Inl (invalid_request ''Invalid record IDs format'')
               | Some recordIds \<Rightarrow>
                   if length recordIds > 10
                   then Inl (invalid_request ''Maximum of 10 records can be deleted in a single request'')
                   else Inr (Provider deleteRecords
                          [AStr baseId, AStr tableIdOrName, AIds recordIds])))"

definition createField_handler :: "req \<Rightarrow> response + provider_call" where
  "createField_handler r =
     (let baseId = param r ''baseId''; tableId = param r ''tableId''; fieldData = body r
      in if baseId = [] \<or> tableId = []
         then Inl (invalid_request ''Base ID and Table ID are required'')
         else if \<not> truthy (Some fieldData) \<or> \<not> truthy (get_field fieldData ''name'')
                 \<or> \<not> truthy (get_field fieldData ''type'')
         then Inl (invalid_request ''Field data with name and type is required'')
         else Inr (Provider createField [AStr baseId, AStr tableId, AVal (Some fieldData)]))"

definition updateField_handler :: "req \<Rightarrow> response + provider_call" where
  "updateField_handler r =
     (let baseId = param r ''baseId''; tableId = param r ''tableId'';
          fieldId = param r ''fieldId''; updates = body r
      in if baseId = [] \<or> tableId = [] \<or> fieldId = []
         then Inl (invalid_request ''Base ID, Table ID, and Field ID are required'')
         else if \<not> truthy (Some updates) \<or> keys_length updates = 0
         then Inl (invalid_request ''Field updates are required'')
         else Inr (Provider updateField
                [AStr baseId, AStr tableId, AStr fieldId, AVal (Some updates)]))"

definition listWebhooks_handler :: "req \<Rightarrow> response + provider_call" where
  "listWebhooks_handler r =
     (let baseId = param r ''baseId''
      in if baseId = [] then Inl (invalid_request ''Base ID is required'')
         else Inr (Provider listWebhooks [AStr baseId]))"

definition createWebhook_handler :: "req \<Rightarrow> response + provider_call" where
  "createWebhook_handler r =
     (let baseId = param r ''baseId''; webhookData = body r
      in if baseId = [] then Inl (invalid_request ''Base ID is required'')
         else if \<not> truthy (Some webhookData) \<or> \<not> truthy (get_field webhookData ''notificationUrl'')
         then Inl (invalid_request ''Webhook notification URL is required'')
         else Inr (Provider createWebhook [AStr baseId, AVal (Some webhookData)]))"

definition deleteWebhook_handler :: "req \<Rightarrow> response + provider_call" where
  "deleteWebhook_handler r =
     (let baseId = param r ''baseId''; webhookId = param r ''webhookId''
      in if baseId = [] \<or> webhookId = []
         then Inl (invalid_request ''Base ID and Webhook ID are required'')
         else Inr (Provider deleteWebhook [AStr baseId, AStr webhookId]))"

definition getAuditLogs_handler :: "req \<Rightarrow> response + provider_call" where
  "getAuditLogs_handler r = Inr (Provider getAuditLogs [AQuery (query r)])"

definition getEnterpriseUsers_handler :: "req \<Rightarrow> response + provider_call" where
  "getEnterpriseUsers_handler r = Inr (Provider getEnterpriseUsers [])"

fun handler :: "endpoint \<Rightarrow> req \<Rightarrow> response + provider_call" where
  "handler getBases = getBases_handler"
| "handler getBaseSchema = getBaseSchema_handler"
| "handler getTableRecords = getTableRecords_handler"
| "handler getRecord = getRecord_handler"
| "handler createRecords = createRecords_handler"
| "handler updateRecords = updateRecords_handler"
| "handler deleteRecords = deleteRecords_handler"
| "handler createField = createField_handler"
| "handler updateField = updateField_handler"
| "handler listWebhooks = listWebhooks_handler"
| "handler createWebhook = createWebhook_handler"
| "handler deleteWebhook = deleteWebhook_handler"
| "handler getAuditLogs = getAuditLogs_handler"
| "handler getEnterpriseUsers = getEnterpriseUsers_handler"

text \<open>The middleware that the controllers chain.\<close>

datatype middleware =
    AuthMiddleware
  | FeatureCheckMiddleware string
  | ScopeCheckMiddleware string
  | ConfirmDestructiveOperationMiddleware
  | BaseRateLimitMiddleware
  | UserRateLimitMiddleware
  | Handler endpoint

fun controller :: "endpoint \<Rightarrow> middleware list" where
  "controller getBases =
     [AuthMiddleware, FeatureCheckMiddleware BASE_DATA, ScopeCheckMiddleware ''getBases'',
      UserRateLimitMiddleware, Handler getBases]"
| "controller getBaseSchema =
     [AuthMiddleware, FeatureCheckMiddleware BASE_DATA, ScopeCheckMiddleware ''getBaseSchema'',
      BaseRateLimitMiddleware, Handler getBaseSchema]"
| "controller getTableRecords =
     [AuthMiddleware, FeatureCheckMiddleware BASE_DATA, ScopeCheckMiddleware ''getTableRecords'',
      BaseRateLimitMiddleware, Handler getTableRecords]"
| "controller getRecord =
     [AuthMiddleware, FeatureCheckMiddleware BASE_DATA, ScopeCheckMiddleware ''getRecord'',
      BaseRateLimitMiddleware, Handler getRecord]"
| "controller createRecords =
     [AuthMiddleware, FeatureCheckMiddleware BASE_DATA, ScopeCheckMiddleware ''createRecords'',
      BaseRateLimitMiddleware, Handler createRecords]"
| "controller updateRecords =
     [AuthMiddleware, FeatureCheckMiddleware BASE_DATA, ScopeCheckMiddleware ''updateRecords'',
      BaseRateLimitMiddleware, Handler updateRecords]"
| "controller deleteRecords =
     [AuthMiddleware, FeatureCheckMiddleware BASE_DATA, ScopeCheckMiddleware ''deleteRecords'',
      ConfirmDestructiveOperationMiddleware, BaseRateLimitMiddleware, Handler deleteRecords]"
| "controller createField =
     [AuthMiddleware, FeatureCheckMiddleware SCHEMA_MODIFICATION, ScopeCheckMiddleware ''createField'',
      BaseRateLimitMiddleware, Handler createField]"
| "controller updateField =
     [AuthMiddleware, FeatureCheckMiddleware SCHEMA_MODIFICATION, ScopeCheckMiddleware ''updateField'',
      BaseRateLimitMiddleware, Handler updateField]"
| "controller listWebhooks =
     [AuthMiddleware, FeatureCheckMiddleware WEBHOOKS, ScopeCheckMiddleware ''listWebhooks'',
      BaseRateLimitMiddleware, Handler listWebhooks]"
| "controller createWebhook =
     [AuthMiddleware, FeatureCheckMiddleware WEBHOOKS, ScopeCheckMiddleware ''createWebhook'',
      BaseRateLimitMiddleware, Handler createWebhook]"
| "controller deleteWebhook =
     [AuthMiddleware, FeatureCheckMiddleware WEBHOOKS, ScopeCheckMiddleware ''deleteWebhook'',
      ConfirmDestructiveOperationMiddleware, BaseRateLimitMiddleware, Handler deleteWebhook]"
| "controller getAuditLogs =
     [AuthMiddleware, FeatureCheckMiddleware ENTERPRISE_API, ScopeCheckMiddleware ''getAuditLogs'',
      UserRateLimitMiddleware, Handler getAuditLogs]"
| "controller getEnterpriseUsers =
     [AuthMiddleware, FeatureCheckMiddleware ENTERPRISE_API, ScopeCheckMiddleware ''getEnterpriseUsers'',
      UserRateLimitMiddleware, Handler getEnterpriseUsers]"

text \<open>
  What serving one request comes to: the response sent, the limiter stores afterwards,
  the provider call made (if any), the number of HTTP requests sent to Airtable and the
  milliseconds spent waiting between them.
\<close>

record outcome =
  sent :: response
  stores :: limiters
  invoked :: "provider_call option"
  attempts :: nat
  waited :: nat

definition answered :: "response \<Rightarrow> limiters \<Rightarrow> outcome" where
  "answered resp L = \<lparr>sent = resp, stores = L, invoked = None, attempts = 0, waited = 0\<rparr>"

text \<open>
  The handler proper: after its own checks it calls the provider, sends the data with
  \<^verbatim>\<open>res.json\<close> or hands the error thrown by \<^verbatim>\<open>_handleError\<close> to
  \<^verbatim>\<open>handleErrorResponse\<close>.
\<close>

definition run_handler :: "upstream \<Rightarrow> endpoint \<Rightarrow> req \<Rightarrow> limiters \<Rightarrow> outcome option" where
  "run_handler up ep r L =
     (case handler ep r of
        Inl resp \<Rightarrow> Some (answered resp L)
      | Inr call \<Rightarrow>
          (case api up 0 of
             None \<Rightarrow> None
           | Some (out, n) \<Rightarrow>
               Some \<lparr>sent = (case out of
                               Fulfilled d \<Rightarrow> \<lparr>code = 200, content = DataBody d\<rparr>
                             | Rejected e \<Rightarrow> handleErrorResponse (handleError e)),
                     stores = L, invoked = Some call,
                     attempts = Suc n, waited = 30000 * n\<rparr>))"

text \<open>
  Express runs the chain of a route in order; a middleware that does not call
  \<^verbatim>\<open>next()\<close> ends it. A chain that runs out falls through to the catch-all route.
\<close>

definition not_found :: response where
  "not_found = error_response 404 ''NOT_FOUND'' ''The requested endpoint does not exist.''"

fun run_chain :: "upstream \<Rightarrow> middleware list \<Rightarrow> req \<Rightarrow> limiters \<Rightarrow> outcome option" where
  "run_chain up [] r L = Some (answered not_found L)"
| "run_chain up (AuthMiddleware # ms) r L =
     (case authMiddleware r of
        Respond resp \<Rightarrow> Some (answered resp L)
      | Next r' \<Rightarrow> run_chain up ms r' L)"
| "run_chain up (FeatureCheckMiddleware feature # ms) r L =
     (case featureCheckMiddleware feature r of
        Respond resp \<Rightarrow> Some (answered resp L)
      | Next r' \<Rightarrow> run_chain up ms r' L)"
| "run_chain up (ScopeCheckMiddleware ep # ms) r L =
     (case scopeCheckMiddleware ep r of
        Respond resp \<Rightarrow> Some (answered resp L)
      | Next r' \<Rightarrow> run_chain up ms r' L)"
| "run_chain up (ConfirmDestructiveOperationMiddleware # ms) r L =
     (case confirmDestructiveOperationMiddleware r of
        Respond resp \<Rightarrow> Some (answered resp L)
      | Next r' \<Rightarrow> run_chain up ms r' L)"
| "run_chain up (BaseRateLimitMiddleware # ms) r L =
     (case rateLimit configureRateLimiter r (base_store L) of
        (Some resp, st) \<Rightarrow> Some (answered resp (L\<lparr>base_store := st\<rparr>))
      | (None, st) \<Rightarrow> run_chain up ms r (L\<lparr>base_store := st\<rparr>))"
| "run_chain up (UserRateLimitMiddleware # ms) r L =
     (case rateLimit configureUserRateLimiter r (user_store L) of
        (Some resp, st) \<Rightarrow> Some (answered resp (L\<lparr>user_store := st\<rparr>))
      | (None, st) \<Rightarrow> run_chain up ms r (L\<lparr>user_store := st\<rparr>))"
| "run_chain up (Handler ep # ms) r L = run_handler up ep r L"

definition serve :: "upstream \<Rightarrow> endpoint \<Rightarrow> req \<Rightarrow> limiters \<Rightarrow> outcome option" where
  "serve up ep r L = run_chain up (controller ep) r L"

text \<open>The error types that the usage guide of the server lists for its responses.\<close>

definition documented_error_types :: "string list" where
  "documented_error_types =
     [''INVALID_REQUEST'', ''UNAUTHORIZED'', ''INSUFFICIENT_PERMISSIONS'', ''FEATURE_UNAVAILABLE'',
      ''NOT_FOUND'', ''CONFIRMATION_REQUIRED'', ''RATE_LIMIT_REACHED'', ''SERVER_ERROR'']"

section \<open>Example requests\<close>

text \<open>
  A well-formed request of an enterprise-plan token holding every scope the record, schema
  and webhook routes ask for, with one record in its body and two record ids in its query;
  it carries no confirmation header.
\<close>

definition example_request :: req where
  "example_request =
     \<lparr>authorization = Some ''Bearer patEXAMPLE'',
      x_billing_plan = Some ''enterprise_scale'',
      x_token_scopes = Some ''data.records:read,data.records:write,schema.bases:read,schema.bases:write,webhook:manage'',
      x_confirm_destructive_operation = None,
      params = [(''baseId'', ''app1''), (''tableIdOrName'', ''tbl1''), (''recordId'', ''rec1''),
                (''tableId'', ''tbl1''), (''fieldId'', ''fld1''), (''webhookId'', ''ach1'')],
      query = [(''records'', QStr ''rec1,rec2'')],
      body = JObj [(''records'', JArr [JObj [(''id'', JStr ''rec1'')]])],
      client_key = ''203.0.113.7'',
      arrival = 100,
      token = None, billingPlan = None, tokenScopes = None\<rparr>"

text \<open>The example request as \<^verbatim>\<open>authMiddleware\<close> passes it on.\<close>

definition example_authenticated :: req where
  "example_authenticated =
     example_request\<lparr>token := Some ''patEXAMPLE'', billingPlan := Some ''enterprise_scale'',
       tokenScopes := Some [''data.records:read'', ''data.records:write'', ''schema.bases:read'',
                            ''schema.bases:write'', ''webhook:manage'']\<rparr>"

text \<open>
  Variants of it: without a credential, on the free plan, and with no scopes header (the
  server then takes the token to hold the scope for reading records only).
\<close>

definition anonymous_request :: req where
  "anonymous_request = example_request\<lparr>authorization := None\<rparr>"

definition free_plan_request :: req where
  "free_plan_request = example_request\<lparr>x_billing_plan := Some ''free''\<rparr>"

definition read_only_request :: req where
  "read_only_request = example_request\<lparr>x_token_scopes := None\<rparr>"

text \<open>
  A request that fails every stage at once when sent to a delete route with the quota used
  up: no credential, the free plan, the reading scope only, no confirmation. And the
  example request with its confirmation header set.
\<close>

definition hopeless_request :: req where
  "hopeless_request =
     example_request\<lparr>authorization := None, x_billing_plan := Some ''free'',
       x_token_scopes := Some ''data.records:read''\<rparr>"

definition confirmed_request :: req where
  "confirmed_request = example_request\<lparr>x_confirm_destructive_operation := Some ''true''\<rparr>"

text \<open>The same request asking for a destructive update.\<close>

definition destructive_update_request :: req where
  "destructive_update_request =
     example_request\<lparr>body := JObj [(''records'', JArr [JObj [(''id'', JStr ''rec1'')]]),
                                   (''destructive'', JBool True)]\<rparr>"

text \<open>A batch of \<open>n\<close> records.\<close>

definition batch_request :: "nat \<Rightarrow> req" where
  "batch_request n =
     example_request\<lparr>body := JObj [(''records'', JArr (replicate n (JObj [])))],
                     query := [(''records'', QArr (replicate n (QStr ''rec1'')))],
                     x_confirm_destructive_operation := Some ''true''\<rparr>"


text \<open>Limiter stores: before any traffic, and with the per-base window of the client used up.\<close>

definition no_traffic :: limiters where
  "no_traffic = \<lparr>base_store = Map.empty, user_store = Map.empty\<rparr>"

definition base_exhausted :: limiters where
  "base_exhausted =
     \<lparr>base_store = [''203.0.113.7'' \<mapsto> \<lparr>windowStart = 0, count = 5\<rparr>],
      user_store = Map.empty\<rparr>"

text \<open>The responses of the two limiters to a request over quota.\<close>

definition base_limit_reached :: response where
  "base_limit_reached =
     \<lparr>code = 429,
      content = LimitBody ''RATE_LIMIT_REACHED'' ''Rate limit exceeded. Please try again later.''\<rparr>"

definition user_limit_reached :: response where
  "user_limit_reached =
     \<lparr>code = 429,
      content = LimitBody ''USER_RATE_LIMIT_REACHED''
                  ''User rate limit exceeded. Please try again later.''\<rparr>"

text \<open>Upstream scripts: Airtable answers at once, after one or two overloads, or never.\<close>

definition too_many_requests :: axios_outcome where
  "too_many_requests = Rejected (HttpError 429 (Some (JObj [])))"

definition always_ok :: upstream where
  "always_ok n = Fulfilled (Some (JObj []))"

definition overloaded_once :: upstream where
  "overloaded_once n = (if n < 1 then too_many_requests else Fulfilled (Some (JObj [])))"

definition overloaded_twice :: upstream where
  "overloaded_twice n = (if n < 2 then too_many_requests else Fulfilled (Some (JObj [])))"

definition always_overloaded :: upstream where
  "always_overloaded n = too_many_requests"

definition model_not_found :: upstream where
  "model_not_found n =
     Rejected (HttpError 404 (Some (JObj [(''error'',
       JObj [(''type'', JStr ''MODEL_ID_NOT_FOUND''), (''message'', JStr ''Could not find table'')])])))"

text \<open>
  A plan table in which the second tier grants a capability that the third, nominally
  higher, tier does not.
\<close>

definition unordered_table :: plan_table where
  "unordered_table =
     [(''bronze'', [''read'']), (''silver'', [''read'', ''export'']), (''gold'', [''read''])]"

section \<open>Names of the constants\<close>

lemmas plan_names = FREE_def TEAMS_def BUSINESS_def ENTERPRISE_SCALE_def

lemmas feature_names = BASE_DATA_def VIEWS_def SCHEMA_MODIFICATION_def WEBHOOKS_def
  SCIM_USER_MANAGEMENT_def ENTERPRISE_API_def CHANGE_EVENTS_def

lemmas scope_names = RECORDS_READ_def RECORDS_WRITE_def RECORD_COMMENTS_READ_def
  RECORD_COMMENTS_WRITE_def SCHEMA_BASES_READ_def SCHEMA_BASES_WRITE_def WEBHOOK_MANAGE_def
  ENTERPRISE_AUDIT_LOGS_READ_def ENTERPRISE_USER_READ_def

section \<open>Evaluating the model\<close>

lemmas middleware_defs = authMiddleware_def startsWith_def authentication_required_def
  featureCheckMiddleware_def featureCheckMiddleware_in_def hasFeature_in_def
  getMinimumPlanForFeature_def PLAN_FEATURES_def plan_names feature_names
  scopeCheckMiddleware_def hasRequiredScopesForEndpoint_def requiredScopes_for_def
  ENDPOINT_SCOPES_def scope_names hasRequiredScope_def object_prototype_keys_def
  confirmDestructiveOperationMiddleware_def unconfirmed_def
  rateLimit_def tryAcquire_def configureRateLimiter_def configureUserRateLimiter_def
  param_def Let_def

section \<open>The plan table\<close>

lemma getMinimum_Inr_iff:
  "(getMinimumPlanForFeature_in tbl f = Inr p) =
     (\<exists>i<length tbl. p = fst (tbl ! i) \<and> f \<in> set (snd (tbl ! i))
         \<and> (\<forall>j<i. f \<notin> set (snd (tbl ! j))))"
proof (induction tbl)
  case Nil
  then show ?case by simp
next
  case (Cons e tbl)
  obtain plan features where e: "e = (plan, features)" by (cases e)
  let ?first = "\<lambda>t i. p = fst (t ! i) \<and> f \<in> set (snd (t ! i)) \<and> (\<forall>j<i. f \<notin> set (snd (t ! j)))"
  show ?case
  proof (cases "f \<in> set features")
    case True
    have "(\<exists>i<length (e # tbl). ?first (e # tbl) i) = (p = plan)"
    proof
      assume "\<exists>i<length (e # tbl). ?first (e # tbl) i"
      then obtain i where i: "p = fst ((e # tbl) ! i)" "\<forall>j<i. f \<notin> set (snd ((e # tbl) ! j))"
        by blast
      have "i = 0"
      proof (rule ccontr)
        assume "i \<noteq> 0"
        then have "0 < i" by simp
        with i(2) have "f \<notin> set (snd ((e # tbl) ! 0))" by blast
        with True e show False by simp
      qed
      with i(1) e show "p = plan" by simp
    next
      assume "p = plan"
      with True e show "\<exists>i<length (e # tbl). ?first (e # tbl) i"
        by (intro exI[of _ 0]) simp
    qed
    with True e show ?thesis by auto
  next
    case False
    have "(\<exists>i<length (e # tbl). ?first (e # tbl) i) = (\<exists>i<length tbl. ?first tbl i)"
      (is "?L = ?R")
    proof
      assume ?L
      then obtain i where i: "i < length (e # tbl)" "p = fst ((e # tbl) ! i)"
        "f \<in> set (snd ((e # tbl) ! i))" "\<forall>j<i. f \<notin> set (snd ((e # tbl) ! j))" by blast
      from i(3) False e have "i \<noteq> 0" by (cases i) auto
      then obtain k where k: "i = Suc k" by (cases i) auto
      have "\<forall>j<k. f \<notin> set (snd (tbl ! j))"
      proof (intro allI impI)
        fix j assume "j < k"
        then have "Suc j < i" using k by simp
        with i(4) have "f \<notin> set (snd ((e # tbl) ! Suc j))" by blast
        then show "f \<notin> set (snd (tbl ! j))" by simp
      qed
      with i k show ?R by (intro exI[of _ k]) simp
    next
      assume ?R
      then obtain k where k: "k < length tbl" "p = fst (tbl ! k)" "f \<in> set (snd (tbl ! k))"
        "\<forall>j<k. f \<notin> set (snd (tbl ! j))" by blast
      have "\<forall>j<Suc k. f \<notin> set (snd ((e # tbl) ! j))"
      proof (intro allI impI)
        fix j assume j: "j < Suc k"
        show "f \<notin> set (snd ((e # tbl) ! j))"
        proof (cases j)
          case 0
          with False e show ?thesis by simp
        next
          case (Suc m)
          with j have "m < k" by simp
          with k(4) Suc show ?thesis by simp
        qed
      qed
      with k show ?L by (intro exI[of _ "Suc k"]) simp
    qed
    with False e Cons.IH show ?thesis by simp
  qed
qed

lemma getMinimum_Inr_ex:
  "(\<exists>p. getMinimumPlanForFeature_in tbl f = Inr p) = (\<exists>entry\<in>set tbl. f \<in> set (snd entry))"
  by (induction tbl) auto

lemma getMinimum_Inl_iff:
  "(\<exists>e. getMinimumPlanForFeature_in tbl f = Inl e) = (\<forall>entry\<in>set tbl. f \<notin> set (snd entry))"
proof -
  have "(\<exists>e. getMinimumPlanForFeature_in tbl f = Inl e) = (\<not> (\<exists>p. getMinimumPlanForFeature_in tbl f = Inr p))"
    by (cases "getMinimumPlanForFeature_in tbl f") auto
  then show ?thesis by (simp add: getMinimum_Inr_ex)
qed

lemma getMinimum_Inl_value:
  "getMinimumPlanForFeature_in tbl f = Inl e \<Longrightarrow> e = Error (''Unknown feature: '' @ f)"
  by (induction tbl) (auto split: if_splits)

lemma hasFeature_in_entry:
  "distinct (map fst tbl) \<Longrightarrow> (plan, features) \<in> set tbl \<Longrightarrow>
     hasFeature_in tbl plan feature = Inr (feature \<in> set features)"
  by (simp add: hasFeature_in_def)

text \<open>
  C7: the plan lookup assumes no order of the tiers. In any table where tier \<open>B\<close> grants
  capability \<open>X\<close> and tier \<open>C\<close> does not, \<open>hasFeature\<close> answers false for \<open>C\<close> (it
  neither throws nor grants), and the plan that the entitlement check reports to a
  caller on \<open>C\<close> is found by scanning the table: it is the first entry, in the order
  of the table, whose capabilities include \<open>X\<close>.
\<close>

theorem plan_lookup_without_tier_order:
  assumes "distinct (map fst tbl)"
    and "(B, fb) \<in> set tbl" and "X \<in> set fb"
    and "(C, fc) \<in> set tbl" and "X \<notin> set fc"
  shows "hasFeature_in tbl C X = Inr False \<and>
         (\<exists>i<length tbl.
             X \<in> set (snd (tbl ! i)) \<and> (\<forall>j<i. X \<notin> set (snd (tbl ! j))) \<and>
             getMinimumPlanForFeature_in tbl X = Inr (fst (tbl ! i)) \<and>
             featureCheckMiddleware_in tbl X (r\<lparr>billingPlan := Some C\<rparr>) =
               Respond (error_response 403 ''FEATURE_UNAVAILABLE''
                 (''This feature requires the '' @ fst (tbl ! i) @ '' plan or higher.'')))"
proof -
  have no: "hasFeature_in tbl C X = Inr False"
    using assms(1,4,5) by (simp add: hasFeature_in_entry)
  have "\<exists>entry\<in>set tbl. X \<in> set (snd entry)"
    using assms(2,3) by force
  then have "\<exists>p. getMinimumPlanForFeature_in tbl X = Inr p"
    by (simp only: getMinimum_Inr_ex)
  then obtain p where p: "getMinimumPlanForFeature_in tbl X = Inr p" ..
  then obtain i where i: "i < length tbl" "p = fst (tbl ! i)" "X \<in> set (snd (tbl ! i))"
    "\<forall>j<i. X \<notin> set (snd (tbl ! j))"
    by (auto simp: getMinimum_Inr_iff)
  have "featureCheckMiddleware_in tbl X (r\<lparr>billingPlan := Some C\<rparr>) =
          Respond (error_response 403 ''FEATURE_UNAVAILABLE''
            (''This feature requires the '' @ p @ '' plan or higher.''))"
    using no p by (simp add: featureCheckMiddleware_in_def)
  with no p i show ?thesis by blast
qed

theorem plan_lookup_without_tier_order_witness:
  "distinct (map fst unordered_table) \<and>
   (''silver'', [''read'', ''export'']) \<in> set unordered_table \<and> ''export'' \<in> set [''read'', ''export''] \<and>
   (''gold'', [''read'']) \<in> set unordered_table \<and> ''export'' \<notin> set [''read''] \<and>
   hasFeature_in unordered_table ''gold'' ''export'' = Inr False \<and>
   getMinimumPlanForFeature_in unordered_table ''export'' = Inr ''silver'' \<and>
   featureCheckMiddleware_in unordered_table ''export'' (example_request\<lparr>billingPlan := Some ''gold''\<rparr>) =
     Respond (error_response 403 ''FEATURE_UNAVAILABLE'' ''This feature requires the silver plan or higher.'')"
proof -
  have h: "distinct (map fst unordered_table)"
    "(''silver'', [''read'', ''export'']) \<in> set unordered_table" "''export'' \<in> set [''read'', ''export'']"
    "(''gold'', [''read'']) \<in> set unordered_table" "''export'' \<notin> set [''read'']"
    by (simp_all add: unordered_table_def)
  have "getMinimumPlanForFeature_in unordered_table ''export'' = Inr ''silver''"
    by (simp add: unordered_table_def)
  with h plan_lookup_without_tier_order [OF h, of example_request] show ?thesis
    by (simp add: featureCheckMiddleware_in_def)
qed

section \<open>Unknown names\<close>

text \<open>None of the inherited property names is a key of one of the two tables.\<close>

lemma prototype_keys_checked:
  "\<forall>k\<in>set object_prototype_keys.
     map_of ENDPOINT_SCOPES k = None \<and> map_of PLAN_FEATURES k = None"
  by code_simp

lemma prototype_keys_unlisted:
  assumes "k \<in> set object_prototype_keys"
  shows "map_of ENDPOINT_SCOPES k = None" and "map_of PLAN_FEATURES k = None"
  using assms prototype_keys_checked by blast+

text \<open>
  C8, as the code has it: a lookup of the scopes of an operation name that
  \<open>ENDPOINT_SCOPES\<close> does not list, and that is not a property name every object
  inherits, succeeds with an empty requirement, so the scope check passes whatever scopes
  the token has. For an inherited property name the lookup throws a TypeError, and the
  scope check answers with status 500. \<open>hasFeature\<close> throws for a plan that is not
  listed, \<open>Unknown billing plan\<close> or, for an inherited property name, a TypeError; the
  plan is a value of the request, and the feature check answers both with status 500.
  \<open>getMinimumPlanForFeature\<close> throws for a capability that no plan grants.
\<close>

theorem unknown_names_in_lookups:
  "(endpoint \<notin> fst ` set ENDPOINT_SCOPES \<and> endpoint \<notin> set object_prototype_keys \<longrightarrow>
      hasRequiredScopesForEndpoint ts endpoint = Inr True \<and>
      scopeCheckMiddleware endpoint r = Next r) \<and>
   (endpoint \<in> set object_prototype_keys \<longrightarrow>
      endpoint \<notin> fst ` set ENDPOINT_SCOPES \<and>
      hasRequiredScopesForEndpoint ts endpoint =
        Inl (Error ''requiredScopes.every is not a function'') \<and>
      scopeCheckMiddleware endpoint r =
        Respond (error_response 500 ''SERVER_ERROR'' ''Failed to check token scopes.'')) \<and>
   (plan \<notin> fst ` set PLAN_FEATURES \<and> plan \<notin> set object_prototype_keys \<longrightarrow>
      hasFeature plan feature = Inl (Error (''Unknown billing plan: '' @ plan)) \<and>
      featureCheckMiddleware feature (r\<lparr>billingPlan := Some plan\<rparr>) =
        Respond (error_response 500 ''SERVER_ERROR'' ''Failed to check feature availability.'')) \<and>
   (plan \<in> set object_prototype_keys \<longrightarrow>
      plan \<notin> fst ` set PLAN_FEATURES \<and>
      hasFeature plan feature =
        Inl (Error ''this.PLAN_FEATURES[plan].includes is not a function'') \<and>
      featureCheckMiddleware feature (r\<lparr>billingPlan := Some plan\<rparr>) =
        Respond (error_response 500 ''SERVER_ERROR'' ''Failed to check feature availability.'')) \<and>
   ((\<forall>entry\<in>set PLAN_FEATURES. feature \<notin> set (snd entry)) \<longrightarrow>
      getMinimumPlanForFeature feature = Inl (Error (''Unknown feature: '' @ feature)))"
proof (intro conjI impI)
  assume a: "endpoint \<notin> fst ` set ENDPOINT_SCOPES \<and> endpoint \<notin> set object_prototype_keys"
  then have "map_of ENDPOINT_SCOPES endpoint = None"
    by (simp add: map_of_eq_None_iff)
  with a have req: "requiredScopes_for endpoint = Some []"
    by (simp add: requiredScopes_for_def)
  then have every: "hasRequiredScopesForEndpoint scopes endpoint = Inr True" for scopes
    by (simp add: hasRequiredScopesForEndpoint_def)
  show "hasRequiredScopesForEndpoint ts endpoint = Inr True"
    by (rule every)
  show "scopeCheckMiddleware endpoint r = Next r"
    by (simp add: scopeCheckMiddleware_def every)
next
  assume a: "endpoint \<in> set object_prototype_keys"
  then have n: "map_of ENDPOINT_SCOPES endpoint = None"
    by (rule prototype_keys_unlisted)
  then show "endpoint \<notin> fst ` set ENDPOINT_SCOPES"
    by (simp add: map_of_eq_None_iff)
  from a n have "requiredScopes_for endpoint = None"
    by (simp add: requiredScopes_for_def)
  then have thrown: "hasRequiredScopesForEndpoint scopes endpoint =
      Inl (Error ''requiredScopes.every is not a function'')" for scopes
    by (simp add: hasRequiredScopesForEndpoint_def)
  show "hasRequiredScopesForEndpoint ts endpoint =
      Inl (Error ''requiredScopes.every is not a function'')"
    by (rule thrown)
  show "scopeCheckMiddleware endpoint r =
      Respond (error_response 500 ''SERVER_ERROR'' ''Failed to check token scopes.'')"
    by (simp add: scopeCheckMiddleware_def thrown)
next
  assume a: "plan \<notin> fst ` set PLAN_FEATURES \<and> plan \<notin> set object_prototype_keys"
  then have "map_of PLAN_FEATURES plan = None"
    by (simp add: map_of_eq_None_iff)
  with a show h: "hasFeature plan feature = Inl (Error (''Unknown billing plan: '' @ plan))"
    by (simp add: hasFeature_def hasFeature_in_def)
  then show "featureCheckMiddleware feature (r\<lparr>billingPlan := Some plan\<rparr>) =
        Respond (error_response 500 ''SERVER_ERROR'' ''Failed to check feature availability.'')"
    by (simp add: featureCheckMiddleware_def featureCheckMiddleware_in_def hasFeature_def)
next
  assume a: "plan \<in> set object_prototype_keys"
  then have n: "map_of PLAN_FEATURES plan = None"
    by (rule prototype_keys_unlisted)
  then show "plan \<notin> fst ` set PLAN_FEATURES"
    by (simp add: map_of_eq_None_iff)
  from a n show h: "hasFeature plan feature =
      Inl (Error ''this.PLAN_FEATURES[plan].includes is not a function'')"
    by (simp add: hasFeature_def hasFeature_in_def)
  then show "featureCheckMiddleware feature (r\<lparr>billingPlan := Some plan\<rparr>) =
        Respond (error_response 500 ''SERVER_ERROR'' ''Failed to check feature availability.'')"
    by (simp add: featureCheckMiddleware_def featureCheckMiddleware_in_def hasFeature_def)
next
  assume "\<forall>entry\<in>set PLAN_FEATURES. feature \<notin> set (snd entry)"
  then have "\<exists>e. getMinimumPlanForFeature_in PLAN_FEATURES feature = Inl e"
    by (simp add: getMinimum_Inl_iff)
  then obtain e where e: "getMinimumPlanForFeature_in PLAN_FEATURES feature = Inl e" ..
  from getMinimum_Inl_value [OF e] e
  show "getMinimumPlanForFeature feature = Inl (Error (''Unknown feature: '' @ feature))"
    by (simp add: getMinimumPlanForFeature_def)
qed

theorem unknown_names_in_lookups_witness:
  "''exportBase'' \<notin> fst ` set ENDPOINT_SCOPES \<and> ''exportBase'' \<notin> set object_prototype_keys \<and>
   hasRequiredScopesForEndpoint (Some []) ''exportBase'' = Inr True \<and>
   scopeCheckMiddleware ''exportBase'' example_request = Next example_request \<and>
   ''constructor'' \<in> set object_prototype_keys \<and>
   ''constructor'' \<notin> fst ` set ENDPOINT_SCOPES \<and>
   hasRequiredScopesForEndpoint (Some []) ''constructor'' =
     Inl (Error ''requiredScopes.every is not a function'') \<and>
   scopeCheckMiddleware ''constructor'' example_request =
     Respond (error_response 500 ''SERVER_ERROR'' ''Failed to check token scopes.'') \<and>
   ''platinum'' \<notin> fst ` set PLAN_FEATURES \<and> ''platinum'' \<notin> set object_prototype_keys \<and>
   hasFeature ''platinum'' ''single_sign_on'' = Inl (Error ''Unknown billing plan: platinum'') \<and>
   ''toString'' \<in> set object_prototype_keys \<and>
   ''toString'' \<notin> fst ` set PLAN_FEATURES \<and>
   hasFeature ''toString'' ''base_data'' =
     Inl (Error ''this.PLAN_FEATURES[plan].includes is not a function'') \<and>
   featureCheckMiddleware ''base_data'' (example_request\<lparr>billingPlan := Some ''toString''\<rparr>) =
     Respond (error_response 500 ''SERVER_ERROR'' ''Failed to check feature availability.'') \<and>
   ''single_sign_on'' \<notin> (\<Union>entry\<in>set PLAN_FEATURES. set (snd entry)) \<and>
   getMinimumPlanForFeature ''single_sign_on'' = Inl (Error ''Unknown feature: single_sign_on'')"
proof -
  have h: "''exportBase'' \<notin> fst ` set ENDPOINT_SCOPES \<and> ''exportBase'' \<notin> set object_prototype_keys"
    "''platinum'' \<notin> fst ` set PLAN_FEATURES \<and> ''platinum'' \<notin> set object_prototype_keys"
    "\<forall>entry\<in>set PLAN_FEATURES. ''single_sign_on'' \<notin> set (snd entry)"
    by (simp_all add: ENDPOINT_SCOPES_def PLAN_FEATURES_def object_prototype_keys_def
        plan_names feature_names)
  have k: "''constructor'' \<in> set object_prototype_keys" "''toString'' \<in> set object_prototype_keys"
    by (simp_all add: object_prototype_keys_def)
  note u1 = unknown_names_in_lookups [where endpoint = "''exportBase''" and ts = "Some []"
      and r = example_request and plan = "''platinum''" and feature = "''single_sign_on''"]
  note u2 = unknown_names_in_lookups [where endpoint = "''constructor''" and ts = "Some []"
      and r = example_request and plan = "''toString''" and feature = "''base_data''"]
  note c1 = u1 [THEN conjunct1, THEN mp, OF h(1)]
  note c2 = u2 [THEN conjunct2, THEN conjunct1, THEN mp, OF k(1)]
  have c3: "hasFeature ''platinum'' ''single_sign_on'' = Inl (Error ''Unknown billing plan: platinum'')"
    using u1 [THEN conjunct2, THEN conjunct2, THEN conjunct1, THEN mp, OF h(2), THEN conjunct1]
    by simp
  note c4 = u2 [THEN conjunct2, THEN conjunct2, THEN conjunct2, THEN conjunct1, THEN mp, OF k(2)]
  have c5: "getMinimumPlanForFeature ''single_sign_on'' = Inl (Error ''Unknown feature: single_sign_on'')"
    using u1 [THEN conjunct2, THEN conjunct2, THEN conjunct2, THEN conjunct2, THEN mp, OF h(3)]
    by simp
  from h(3) have h3: "''single_sign_on'' \<notin> (\<Union>entry\<in>set PLAN_FEATURES. set (snd entry))"
    by simp
  show ?thesis
    by (intro conjI h(1) [THEN conjunct1] h(1) [THEN conjunct2] c1 [THEN conjunct1]
        c1 [THEN conjunct2] k(1) c2 [THEN conjunct1] c2 [THEN conjunct2, THEN conjunct1]
        c2 [THEN conjunct2, THEN conjunct2] h(2) [THEN conjunct1] h(2) [THEN conjunct2] c3 k(2)
        c4 [THEN conjunct1] c4 [THEN conjunct2, THEN conjunct1]
        c4 [THEN conjunct2, THEN conjunct2] h3 c5)
qed

theorem unknown_operation_counterexample:
  "hasRequiredScopesForEndpoint (Some []) ''exportBase'' = Inr True \<and>
   scopeCheckMiddleware ''exportBase'' (example_request\<lparr>tokenScopes := Some []\<rparr>) =
     Next (example_request\<lparr>tokenScopes := Some []\<rparr>)"
  by (simp add: middleware_defs)

section \<open>The order of the stages\<close>







lemma tryAcquire_Denied: "tryAcquire k lim w now st = (Denied t, st') \<Longrightarrow> st' = st"
  by (auto simp: tryAcquire_def Let_def split: if_splits)

lemma rateLimit_Some:
  "rateLimit opts r st = (Some resp, st') \<Longrightarrow>
     st' = st \<and> resp = \<lparr>code = 429, content = LimitBody (message_error opts) (message_text opts)\<rparr>"
  by (auto simp: rateLimit_def split: prod.splits decision.splits dest: tryAcquire_Denied)

text \<open>
  Every controller is the same chain: authentication, the feature check, the scope
  check, the confirmation middleware on the two delete routes, one of the two limiters,
  the handler.
\<close>

lemma serve_stages:
  assumes "FeatureCheckMiddleware f \<in> set (controller ep)"
    and "ScopeCheckMiddleware e \<in> set (controller ep)"
  shows "serve up ep r L =
     (case authMiddleware r of
        Respond resp \<Rightarrow> Some (answered resp L)
      | Next r1 \<Rightarrow>
         (case featureCheckMiddleware f r1 of
            Respond resp \<Rightarrow> Some (answered resp L)
          | Next r2 \<Rightarrow>
             (case scopeCheckMiddleware e r2 of
                Respond resp \<Rightarrow> Some (answered resp L)
              | Next r3 \<Rightarrow>
                 (if ConfirmDestructiveOperationMiddleware \<in> set (controller ep) \<and> unconfirmed r3
                  then Some (answered confirmation_required L)
                  else if BaseRateLimitMiddleware \<in> set (controller ep)
                  then (case rateLimit configureRateLimiter r3 (base_store L) of
                          (Some resp, st) \<Rightarrow> Some (answered resp (L\<lparr>base_store := st\<rparr>))
                        | (None, st) \<Rightarrow> run_handler up ep r3 (L\<lparr>base_store := st\<rparr>))
                  else (case rateLimit configureUserRateLimiter r3 (user_store L) of
                          (Some resp, st) \<Rightarrow> Some (answered resp (L\<lparr>user_store := st\<rparr>))
                        | (None, st) \<Rightarrow> run_handler up ep r3 (L\<lparr>user_store := st\<rparr>))))))"
  using assms
  by (cases ep)
     (simp_all add: serve_def confirmDestructiveOperationMiddleware_def
        split: step.splits prod.splits option.splits)

lemma controller_has_checks:
  "\<exists>f e. FeatureCheckMiddleware f \<in> set (controller ep) \<and> ScopeCheckMiddleware e \<in> set (controller ep)"
  by (cases ep) auto


lemma serve_auth_reject:
  "authMiddleware r = Respond resp \<Longrightarrow> serve up ep r L = Some (answered resp L)"
  by (cases ep) (simp_all add: serve_def)

lemma serve_feature_reject:
  assumes "authMiddleware r = Next r1" and "FeatureCheckMiddleware f \<in> set (controller ep)"
    and "featureCheckMiddleware f r1 = Respond resp"
  shows "serve up ep r L = Some (answered resp L)"
proof -
  obtain e where "ScopeCheckMiddleware e \<in> set (controller ep)"
    using controller_has_checks by blast
  from serve_stages [OF assms(2) this] assms(1,3) show ?thesis by simp
qed

lemma serve_scope_reject:
  assumes "authMiddleware r = Next r1" and "FeatureCheckMiddleware f \<in> set (controller ep)"
    and "featureCheckMiddleware f r1 = Next r2"
    and "ScopeCheckMiddleware e \<in> set (controller ep)"
    and "scopeCheckMiddleware e r2 = Respond resp"
  shows "serve up ep r L = Some (answered resp L)"
  using serve_stages [OF assms(2,4)] assms(1,3,5) by simp


lemma serve_limiter_stage:
  assumes "authMiddleware r = Next r1" and "FeatureCheckMiddleware f \<in> set (controller ep)"
    and "featureCheckMiddleware f r1 = Next r2"
    and "ScopeCheckMiddleware e \<in> set (controller ep)"
    and "scopeCheckMiddleware e r2 = Next r3"
    and "\<not> (ConfirmDestructiveOperationMiddleware \<in> set (controller ep) \<and> unconfirmed r3)"
  shows "serve up ep r L =
     (if BaseRateLimitMiddleware \<in> set (controller ep)
      then (case rateLimit configureRateLimiter r3 (base_store L) of
              (Some resp, st) \<Rightarrow> Some (answered resp (L\<lparr>base_store := st\<rparr>))
            | (None, st) \<Rightarrow> run_handler up ep r3 (L\<lparr>base_store := st\<rparr>))
      else (case rateLimit configureUserRateLimiter r3 (user_store L) of
              (Some resp, st) \<Rightarrow> Some (answered resp (L\<lparr>user_store := st\<rparr>))
            | (None, st) \<Rightarrow> run_handler up ep r3 (L\<lparr>user_store := st\<rparr>)))"
  using serve_stages [OF assms(2,4), of up r L] assms(1,3,5,6)
  by (simp del: set_simps)




lemmas example_defs = example_request_def example_authenticated_def destructive_update_request_def
  no_traffic_def base_exhausted_def base_limit_reached_def user_limit_reached_def


lemma auth_ignores_body:
  "authMiddleware (r\<lparr>body := b\<rparr>) =
     (case authMiddleware r of Next r1 \<Rightarrow> Next (r1\<lparr>body := b\<rparr>) | Respond resp \<Rightarrow> Respond resp)"
  by (simp add: authMiddleware_def split: option.splits list.splits)

lemma example_passes_feature: "featureCheckMiddleware f example_authenticated =
    (if f \<in> set [BASE_DATA, VIEWS, SCHEMA_MODIFICATION, WEBHOOKS, SCIM_USER_MANAGEMENT,
         ENTERPRISE_API, CHANGE_EVENTS]
     then Next example_authenticated
     else Respond (error_response 500 ''SERVER_ERROR'' ''Failed to check feature availability.''))"
  by (simp add: example_defs featureCheckMiddleware_def featureCheckMiddleware_in_def
      hasFeature_in_def PLAN_FEATURES_def plan_names getMinimum_Inl_iff
      split: sum.splits)

section \<open>Rejections before admission\<close>


lemmas variant_defs = anonymous_request_def free_plan_request_def read_only_request_def
  hopeless_request_def confirmed_request_def



section \<open>Which error a caller sees\<close>





section \<open>Admission\<close>






lemma getBaseSchema_served:
  "serve always_ok getBaseSchema example_request no_traffic =
     Some \<lparr>sent = \<lparr>code = 200, content = DataBody (Some (JObj []))\<rparr>,
           stores = no_traffic\<lparr>base_store := [''203.0.113.7'' \<mapsto> \<lparr>windowStart = 100, count = 1\<rparr>]\<rparr>,
           invoked = Some (Provider getBaseSchema [AStr ''app1'']), attempts = 1, waited = 0\<rparr>"
  by (simp add: serve_def middleware_defs example_defs run_handler_def getBaseSchema_handler_def
      api.simps always_ok_def)



section \<open>Retrying an overloaded upstream\<close>

lemma api_overload: "overload (up n) \<Longrightarrow> api up n = api up (Suc n)"
  by (subst api.simps) (auto simp: overload_def split: axios_outcome.splits axios_error.splits)

lemma api_settled: "\<not> overload (up n) \<Longrightarrow> api up n = Some (up n, n)"
  by (subst api.simps) (auto simp: overload_def split: axios_outcome.splits axios_error.splits)

lemma api_skip: "(\<forall>j<k. overload (up (n + j))) \<Longrightarrow> api up n = api up (n + k)"
proof (induction k)
  case 0
  then show ?case by simp
next
  case (Suc k)
  then have "api up n = api up (n + k)" by simp
  also from Suc.prems have "overload (up (n + k))" by simp
  then have "api up (n + k) = api up (Suc (n + k))" by (rule api_overload)
  finally show ?case by simp
qed

lemma api_after_retries:
  assumes "\<forall>j<k. overload (up j)" and "\<not> overload (up k)"
  shows "api up 0 = Some (up k, k)"
proof -
  from assms(1) have "api up 0 = api up (0 + k)" by (intro api_skip) simp
  with assms(2) show ?thesis by (simp add: api_settled)
qed

text \<open>
  The loop gives a result only if some attempt is not answered with status 429: by
  induction on the computation of a result.
\<close>

lemma api_never:
  assumes "\<forall>n. overload (up n)"
  shows "api up m = None"
proof (rule ccontr)
  assume "api up m \<noteq> None"
  then obtain y where "api up m = Some y" by auto
  then have "\<exists>k. \<not> overload (up k)"
  proof (induction rule: api.raw_induct[rotated 1, consumes 1])
    case (1 api' up' n y)
    show ?case
    proof (cases "overload (up' n)")
      case False
      then show ?thesis by blast
    next
      case True
      then obtain d where "up' n = Rejected (HttpError 429 d)"
        by (auto simp: overload_def split: axios_outcome.splits axios_error.splits)
      with "1.hyps" have "api' up' (Suc n) = Some y" by simp
      then show ?thesis by (rule "1.IH")
    qed
  qed
  with assms show False by simp
qed

text \<open>Conversely, it gives a result as soon as one attempt is not answered with status 429.\<close>

lemma api_returns:
  assumes "\<not> overload (up k)"
  shows "\<exists>m\<le>k. api up 0 = Some (up m, m) \<and> \<not> overload (up m)"
proof -
  define m where "m = (LEAST j. \<not> overload (up j))"
  from assms have a: "\<not> overload (up m)" unfolding m_def by (rule LeastI)
  from assms have b: "m \<le> k" unfolding m_def by (rule Least_le)
  have "\<forall>j<m. overload (up j)" unfolding m_def using not_less_Least by blast
  then have "api up 0 = Some (up m, m)" using a by (rule api_after_retries)
  with a b show ?thesis by blast
qed

text \<open>
  C4, as the code has it: the interceptor retries through the axios instance it is
  installed on, so the retried request is intercepted again. When the upstream answers
  429 to the first \<open>k\<close> attempts and something else to the next, the call ends with that
  outcome after exactly \<open>k\<close> retries and \<open>k\<close> waits of 30 seconds: no retry for a
  failure that is not an overload (\<open>k = 0\<close>), success after one retry for one overload
  followed by success (\<open>k = 1\<close>). There is no bound on \<open>k\<close>: an upstream that answers
  429 every time is retried for ever, and the request is never answered.
\<close>

theorem retried_while_overloaded:
  "((\<forall>j<k. overload (up j)) \<and> \<not> overload (up k) \<longrightarrow> api up 0 = Some (up k, k)) \<and>
   ((\<forall>n. overload (up n)) \<longrightarrow> api up 0 = None) \<and>
   (handler ep r = Inr call \<and> (\<forall>j<k. overload (up j)) \<and> \<not> overload (up k) \<longrightarrow>
      run_handler up ep r L =
        Some \<lparr>sent = (case up k of
                        Fulfilled d \<Rightarrow> \<lparr>code = 200, content = DataBody d\<rparr>
                      | Rejected e \<Rightarrow> handleErrorResponse (handleError e)),
              stores = L, invoked = Some call, attempts = Suc k, waited = 30000 * k\<rparr>) \<and>
   (handler ep r = Inr call \<and> (\<forall>n. overload (up n)) \<longrightarrow> run_handler up ep r L = None) \<and>
   (api up 0 = None) = (\<forall>n. overload (up n))"
proof (intro conjI impI)
  assume "(\<forall>j<k. overload (up j)) \<and> \<not> overload (up k)"
  then show "api up 0 = Some (up k, k)" by (simp add: api_after_retries)
next
  show "(api up 0 = None) = (\<forall>n. overload (up n))"
  proof
    assume n: "api up 0 = None"
    show "\<forall>n. overload (up n)"
    proof (rule ccontr)
      assume "\<not> (\<forall>n. overload (up n))"
      then obtain k where "\<not> overload (up k)" by blast
      from api_returns [of up k, OF this] n show False by auto
    qed
  next
    assume "\<forall>n. overload (up n)"
    then show "api up 0 = None" by (rule api_never)
  qed
next
  assume "\<forall>n. overload (up n)"
  then show "api up 0 = None" by (rule api_never)
next
  assume "handler ep r = Inr call \<and> (\<forall>j<k. overload (up j)) \<and> \<not> overload (up k)"
  then have "handler ep r = Inr call" "api up 0 = Some (up k, k)"
    by (simp_all add: api_after_retries)
  then show "run_handler up ep r L =
        Some \<lparr>sent = (case up k of
                        Fulfilled d \<Rightarrow> \<lparr>code = 200, content = DataBody d\<rparr>
                      | Rejected e \<Rightarrow> handleErrorResponse (handleError e)),
              stores = L, invoked = Some call, attempts = Suc k, waited = 30000 * k\<rparr>"
    by (simp add: run_handler_def)
next
  assume "handler ep r = Inr call \<and> (\<forall>n. overload (up n))"
  then have "handler ep r = Inr call" "api up 0 = None"
    by (simp_all add: api_never)
  then show "run_handler up ep r L = None"
    by (simp add: run_handler_def)
qed

lemma overload_examples:
  "overload too_many_requests" "\<not> overload (Fulfilled d)" "\<not> overload (model_not_found n)"
  by (simp_all add: overload_def too_many_requests_def model_not_found_def)

theorem retried_while_overloaded_witness:
  "overload (overloaded_once 0) \<and> \<not> overload (overloaded_once 1) \<and>
   api overloaded_once 0 = Some (Fulfilled (Some (JObj [])), 1) \<and>
   handler getBases example_authenticated = Inr (Provider getBases []) \<and>
   run_handler overloaded_once getBases example_authenticated no_traffic =
     Some \<lparr>sent = \<lparr>code = 200, content = DataBody (Some (JObj []))\<rparr>, stores = no_traffic,
           invoked = Some (Provider getBases []), attempts = 2, waited = 30000\<rparr> \<and>
   \<not> overload (model_not_found 0) \<and>
   run_handler model_not_found getBases example_authenticated no_traffic =
     Some \<lparr>sent = \<lparr>code = 404,
                    content = ErrorBody (JStr ''MODEL_ID_NOT_FOUND'') ''Could not find table''
                      (Some (JObj [(''type'', JStr ''MODEL_ID_NOT_FOUND''),
                                   (''message'', JStr ''Could not find table'')]))\<rparr>,
           stores = no_traffic, invoked = Some (Provider getBases []),
           attempts = 1, waited = 0\<rparr> \<and>
   overload (always_overloaded 7) \<and>
   api always_overloaded 0 = None \<and>
   run_handler always_overloaded getBases example_authenticated no_traffic = None"
proof -
  have o1: "\<forall>j<1. overload (overloaded_once j)" "\<not> overload (overloaded_once 1)"
    by (simp_all add: overloaded_once_def overload_examples)
  have o0: "\<forall>j<0. overload (model_not_found j)" "\<not> overload (model_not_found 0)"
    by (simp_all add: overload_examples)
  have oa: "\<forall>n. overload (always_overloaded n)"
    by (simp add: always_overloaded_def overload_examples)
  have h: "handler getBases example_authenticated = Inr (Provider getBases [])"
    by (simp add: getBases_handler_def)
  have v1: "overloaded_once 1 = Fulfilled (Some (JObj []))"
    "overloaded_once (Suc 0) = Fulfilled (Some (JObj []))"
    by (simp_all add: overloaded_once_def)
  note rwo = retried_while_overloaded
  have c1: "api overloaded_once 0 = Some (Fulfilled (Some (JObj [])), 1)"
    using rwo [THEN conjunct1, THEN mp, OF conjI [OF o1]]
    by (simp add: v1)
  have c2: "run_handler overloaded_once getBases example_authenticated no_traffic =
     Some \<lparr>sent = \<lparr>code = 200, content = DataBody (Some (JObj []))\<rparr>, stores = no_traffic,
           invoked = Some (Provider getBases []), attempts = 2, waited = 30000\<rparr>"
    using rwo [THEN conjunct2, THEN conjunct2, THEN conjunct1, THEN mp,
        OF conjI [OF h conjI [OF o1]], of no_traffic]
    by (simp add: v1)
  have v0: "model_not_found 0 =
     Rejected (HttpError 404 (Some (JObj [(''error'',
       JObj [(''type'', JStr ''MODEL_ID_NOT_FOUND''), (''message'', JStr ''Could not find table'')])])))"
    by (simp add: model_not_found_def)
  have c3: "run_handler model_not_found getBases example_authenticated no_traffic =
     Some \<lparr>sent = \<lparr>code = 404,
                    content = ErrorBody (JStr ''MODEL_ID_NOT_FOUND'') ''Could not find table''
                      (Some (JObj [(''type'', JStr ''MODEL_ID_NOT_FOUND''),
                                   (''message'', JStr ''Could not find table'')]))\<rparr>,
           stores = no_traffic, invoked = Some (Provider getBases []),
           attempts = 1, waited = 0\<rparr>"
    using rwo [THEN conjunct2, THEN conjunct2, THEN conjunct1, THEN mp,
        OF conjI [OF h conjI [OF o0]], of no_traffic]
    by (simp add: v0 handleError_def handleErrorResponse_def)
  have c4: "api always_overloaded 0 = None"
    using rwo [THEN conjunct2, THEN conjunct1, THEN mp, OF oa] .
  have c5: "run_handler always_overloaded getBases example_authenticated no_traffic = None"
    using rwo [THEN conjunct2, THEN conjunct2, THEN conjunct2, THEN conjunct1, THEN mp,
        OF conjI [OF h oa]] .
  from o1 have o1': "overload (overloaded_once 0)" by simp
  from oa have oa': "overload (always_overloaded 7)" by simp
  show ?thesis
    by (intro conjI o1' o1(2) c1 h c2 o0(2) c3 oa' c4 c5)
qed

theorem retried_more_than_once:
  "overload (overloaded_twice 0) \<and> overload (overloaded_twice 1) \<and>
   api overloaded_twice 0 = Some (Fulfilled (Some (JObj [])), 2) \<and>
   run_handler overloaded_twice getBases example_authenticated no_traffic =
     Some \<lparr>sent = \<lparr>code = 200, content = DataBody (Some (JObj []))\<rparr>, stores = no_traffic,
           invoked = Some (Provider getBases []), attempts = 3, waited = 60000\<rparr> \<and>
   api always_overloaded 0 = None \<and>
   serve always_overloaded getBases example_request no_traffic = None"
proof -
  have o: "overload (overloaded_twice 0)" "overload (overloaded_twice 1)"
    by (simp_all add: overloaded_twice_def overload_examples)
  have a: "api overloaded_twice 0 = Some (Fulfilled (Some (JObj [])), 2)"
    by (simp add: api.simps overloaded_twice_def too_many_requests_def)
  then have r: "run_handler overloaded_twice getBases example_authenticated no_traffic =
     Some \<lparr>sent = \<lparr>code = 200, content = DataBody (Some (JObj []))\<rparr>, stores = no_traffic,
           invoked = Some (Provider getBases []), attempts = 3, waited = 60000\<rparr>"
    by (simp add: run_handler_def getBases_handler_def)
  have n: "api always_overloaded 0 = None"
    by (rule api_never) (simp add: always_overloaded_def overload_examples)
  then have s: "serve always_overloaded getBases example_request no_traffic = None"
    by (simp add: serve_def middleware_defs example_defs run_handler_def getBases_handler_def)
  show ?thesis by (intro conjI o a r n s)
qed

section \<open>The batch ceiling\<close>





section \<open>Authentication\<close>

lemma split_on_first: "\<exists>rest. split_on c s = takeWhile (\<lambda>x. x \<noteq> c) s # rest"
  by (induction s) (auto split: list.splits)

lemma bearer_split: "split_on CHR '' '' (''Bearer '' @ d) = ''Bearer'' # split_on CHR '' '' d"
  by simp

lemma bearer_token:
  assumes "startsWith h ''Bearer ''"
  shows "\<exists>rest. split_on CHR '' '' h = ''Bearer'' # takeWhile (\<lambda>x. x \<noteq> CHR '' '') (drop 7 h) # rest"
proof -
  have "length ''Bearer '' = 7" by simp
  with assms have "take 7 h = ''Bearer ''"
    unfolding startsWith_def by (simp only:)
  then have "''Bearer '' @ drop 7 h = take 7 h @ drop 7 h"
    by (simp only:)
  then have "''Bearer '' @ drop 7 h = h"
    by (simp only: append_take_drop_id)
  then have "split_on CHR '' '' h = split_on CHR '' '' (''Bearer '' @ drop 7 h)"
    by (simp only:)
  also have "\<dots> = ''Bearer'' # split_on CHR '' '' (drop 7 h)"
    by (rule bearer_split)
  finally show ?thesis
    using split_on_first [of "CHR '' ''" "drop 7 h"] by auto
qed


lemma authMiddleware_rejects:
  "authorization r = None \<or>
   (\<exists>h. authorization r = Some h \<and>
      (\<not> startsWith h ''Bearer '' \<or> takeWhile (\<lambda>x. x \<noteq> CHR '' '') (drop 7 h) = [])) \<Longrightarrow>
   authMiddleware r = Respond authentication_required"
proof (cases "authorization r")
  case None
  then show ?thesis by (simp add: authMiddleware_def)
next
  case (Some h)
  assume "authorization r = None \<or>
   (\<exists>h. authorization r = Some h \<and>
      (\<not> startsWith h ''Bearer '' \<or> takeWhile (\<lambda>x. x \<noteq> CHR '' '') (drop 7 h) = []))"
  with Some have c: "\<not> startsWith h ''Bearer '' \<or> takeWhile (\<lambda>x. x \<noteq> CHR '' '') (drop 7 h) = []"
    by simp
  show ?thesis
  proof (cases "startsWith h ''Bearer ''")
    case False
    with Some show ?thesis by (simp add: authMiddleware_def)
  next
    case True
    with c have "takeWhile (\<lambda>x. x \<noteq> CHR '' '') (drop 7 h) = []" by simp
    with bearer_token [OF True] obtain rest where "split_on CHR '' '' h = ''Bearer'' # [] # rest"
      by auto
    with Some True show ?thesis by (simp add: authMiddleware_def)
  qed
qed

lemma authMiddleware_passes:
  assumes "authorization r = Some h" and "startsWith h ''Bearer ''"
    and "takeWhile (\<lambda>x. x \<noteq> CHR '' '') (drop 7 h) \<noteq> []"
  shows "\<exists>r1. authMiddleware r = Next r1 \<and>
           token r1 = Some (takeWhile (\<lambda>x. x \<noteq> CHR '' '') (drop 7 h))"
proof -
  from bearer_token [OF assms(2)] obtain rest
    where "split_on CHR '' '' h = ''Bearer'' # takeWhile (\<lambda>x. x \<noteq> CHR '' '') (drop 7 h) # rest"
    by auto
  moreover from assms(2) have "h \<noteq> []" by (auto simp: startsWith_def)
  ultimately show ?thesis using assms by (simp add: authMiddleware_def)
qed

text \<open>
  C9: a request whose Authorization header is missing, does not start with
  \<open>Bearer\<close> and a space, or has nothing between that space and the next one, is
  rejected by \<open>authMiddleware\<close> on every route, before any other stage runs: the limiter
  stores are untouched and the provider is not called. The response has status 401, and
  its type is \<open>INVALID_REQUEST\<close>, the type the server gives to invalid requests (the
  usage guide documents \<open>UNAUTHORIZED\<close> for status 401). Every other request passes
  with the text up to the next space as its token.
\<close>

theorem credential_required:
  "(authorization r = None \<or>
    (\<exists>h. authorization r = Some h \<and>
       (\<not> startsWith h ''Bearer '' \<or> takeWhile (\<lambda>x. x \<noteq> CHR '' '') (drop 7 h) = [])) \<longrightarrow>
      authMiddleware r =
        Respond \<lparr>code = 401, content = ErrorBody (JStr ''INVALID_REQUEST'')
                   ''Authentication required. Please provide a valid token.'' None\<rparr> \<and>
      serve up ep r L =
        Some (answered \<lparr>code = 401, content = ErrorBody (JStr ''INVALID_REQUEST'')
                   ''Authentication required. Please provide a valid token.'' None\<rparr> L)) \<and>
   (authorization r = Some h \<and> startsWith h ''Bearer '' \<and>
    takeWhile (\<lambda>x. x \<noteq> CHR '' '') (drop 7 h) \<noteq> [] \<longrightarrow>
      (\<exists>r1. authMiddleware r = Next r1 \<and>
         token r1 = Some (takeWhile (\<lambda>x. x \<noteq> CHR '' '') (drop 7 h))))"
proof (intro conjI impI)
  assume a: "authorization r = None \<or>
    (\<exists>h. authorization r = Some h \<and>
       (\<not> startsWith h ''Bearer '' \<or> takeWhile (\<lambda>x. x \<noteq> CHR '' '') (drop 7 h) = []))"
  have e: "authentication_required = \<lparr>code = 401, content = ErrorBody (JStr ''INVALID_REQUEST'')
                   ''Authentication required. Please provide a valid token.'' None\<rparr>"
    by (simp add: authentication_required_def error_response_def)
  from authMiddleware_rejects [OF a]
  show "authMiddleware r =
        Respond \<lparr>code = 401, content = ErrorBody (JStr ''INVALID_REQUEST'')
                   ''Authentication required. Please provide a valid token.'' None\<rparr>"
    by (simp only: e)
  from serve_auth_reject [OF authMiddleware_rejects [OF a]]
  show "serve up ep r L =
        Some (answered \<lparr>code = 401, content = ErrorBody (JStr ''INVALID_REQUEST'')
                   ''Authentication required. Please provide a valid token.'' None\<rparr> L)"
    by (simp only: e)
next
  assume "authorization r = Some h \<and> startsWith h ''Bearer '' \<and>
    takeWhile (\<lambda>x. x \<noteq> CHR '' '') (drop 7 h) \<noteq> []"
  then show "\<exists>r1. authMiddleware r = Next r1 \<and>
         token r1 = Some (takeWhile (\<lambda>x. x \<noteq> CHR '' '') (drop 7 h))"
    using authMiddleware_passes by blast
qed

theorem credential_required_witness:
  "authorization anonymous_request = None \<and>
   serve always_ok getBases anonymous_request no_traffic =
     Some (answered \<lparr>code = 401, content = ErrorBody (JStr ''INVALID_REQUEST'')
                   ''Authentication required. Please provide a valid token.'' None\<rparr> no_traffic) \<and>
   \<not> startsWith ''Basic dXNlcjpwYXNz'' ''Bearer '' \<and>
   serve always_ok getBases (example_request\<lparr>authorization := Some ''Basic dXNlcjpwYXNz''\<rparr>) no_traffic =
     Some (answered \<lparr>code = 401, content = ErrorBody (JStr ''INVALID_REQUEST'')
                   ''Authentication required. Please provide a valid token.'' None\<rparr> no_traffic) \<and>
   takeWhile (\<lambda>x. x \<noteq> CHR '' '') (drop 7 ''Bearer '') = [] \<and>
   serve always_ok getBases (example_request\<lparr>authorization := Some ''Bearer ''\<rparr>) no_traffic =
     Some (answered \<lparr>code = 401, content = ErrorBody (JStr ''INVALID_REQUEST'')
                   ''Authentication required. Please provide a valid token.'' None\<rparr> no_traffic) \<and>
   authorization example_request = Some ''Bearer patEXAMPLE'' \<and>
   startsWith ''Bearer patEXAMPLE'' ''Bearer '' \<and>
   (\<exists>r1. authMiddleware example_request = Next r1 \<and> token r1 = Some ''patEXAMPLE'')"
proof -
  note cr = credential_required
  have a1: "authorization anonymous_request = None"
    by (simp add: anonymous_request_def)
  note c1 = cr [THEN conjunct1, THEN mp, OF disjI1, OF a1, THEN conjunct2,
      of always_ok getBases no_traffic]
  have n2: "\<not> startsWith ''Basic dXNlcjpwYXNz'' ''Bearer ''"
    by (simp add: startsWith_def)
  have a2: "\<exists>h. authorization (example_request\<lparr>authorization := Some ''Basic dXNlcjpwYXNz''\<rparr>) = Some h \<and>
       (\<not> startsWith h ''Bearer '' \<or> takeWhile (\<lambda>x. x \<noteq> CHR '' '') (drop 7 h) = [])"
    using n2 by simp
  note c2 = cr [THEN conjunct1, THEN mp, OF disjI2, OF a2, THEN conjunct2,
      of always_ok getBases no_traffic]
  have n3: "takeWhile (\<lambda>x. x \<noteq> CHR '' '') (drop 7 ''Bearer '') = []"
    by simp
  have a3: "\<exists>h. authorization (example_request\<lparr>authorization := Some ''Bearer ''\<rparr>) = Some h \<and>
       (\<not> startsWith h ''Bearer '' \<or> takeWhile (\<lambda>x. x \<noteq> CHR '' '') (drop 7 h) = [])"
    using n3 by simp
  note c3 = cr [THEN conjunct1, THEN mp, OF disjI2, OF a3, THEN conjunct2,
      of always_ok getBases no_traffic]
  have a4: "authorization example_request = Some ''Bearer patEXAMPLE''"
    by (simp add: example_request_def)
  have s4: "startsWith ''Bearer patEXAMPLE'' ''Bearer ''"
    by (simp add: startsWith_def)
  have t4: "takeWhile (\<lambda>x. x \<noteq> CHR '' '') (drop 7 ''Bearer patEXAMPLE'') = ''patEXAMPLE''"
    by simp
  then have t4': "takeWhile (\<lambda>x. x \<noteq> CHR '' '') (drop 7 ''Bearer patEXAMPLE'') \<noteq> []"
    by simp
  note c4 = cr [THEN conjunct2, THEN mp, OF conjI [OF a4 conjI [OF s4 t4']], unfolded t4]
  show ?thesis
    by (intro conjI a1 c1 n2 c2 n3 c3 a4 s4 c4)
qed

section \<open>The confirmation header\<close>

lemma char_eq_char_of: "k < 256 \<Longrightarrow> (c = char_of k) = (of_char c = (k::nat))"
proof
  assume "k < 256" "c = char_of k"
  then show "of_char c = k" by simp
next
  assume "of_char c = k"
  then have "char_of (of_char c :: nat) = (char_of k :: char)" by simp
  then show "c = char_of k" by (simp only: char_of_char)
qed

text \<open>Only a small letter and its capital are lowered to that small letter.\<close>

lemma to_lower_char_iff:
  assumes "97 \<le> (k::nat)" "k \<le> 122"
  shows "(to_lower_char c = char_of k) = (c = char_of k \<or> c = char_of (k - 32))"
proof -
  let ?n = "of_char c :: nat"
  have k: "k < 256" "k - 32 < 256" using assms by auto
  show ?thesis
  proof (cases "(65 \<le> ?n \<and> ?n \<le> 90) \<or> (192 \<le> ?n \<and> ?n \<le> 222 \<and> ?n \<noteq> 215)")
    case True
    then have "?n + 32 < 256" by auto
    then have "of_char (char_of (?n + 32) :: char) = ?n + 32" by simp
    moreover have "to_lower_char c = char_of (?n + 32)"
      unfolding to_lower_char_def Let_def by (rule if_P) (rule True)
    ultimately have "(to_lower_char c = char_of k) = (?n + 32 = k)"
      using k(1) by (simp only: char_eq_char_of)
    then show ?thesis
      using True assms by (simp only: char_eq_char_of[OF k(1)] char_eq_char_of[OF k(2)]) auto
  next
    case False
    have "to_lower_char c = c"
      unfolding to_lower_char_def Let_def by (rule if_not_P) (rule False)
    then show ?thesis
      using False assms by (simp only: char_eq_char_of[OF k(1)] char_eq_char_of[OF k(2)]) auto
  qed
qed

lemma letters_true:
  "CHR ''t'' = char_of (116::nat)" "CHR ''T'' = char_of (116 - 32 ::nat)"
  "CHR ''r'' = char_of (114::nat)" "CHR ''R'' = char_of (114 - 32 ::nat)"
  "CHR ''u'' = char_of (117::nat)" "CHR ''U'' = char_of (117 - 32 ::nat)"
  "CHR ''e'' = char_of (101::nat)" "CHR ''E'' = char_of (101 - 32 ::nat)"
  by code_simp+

lemma lower_t: "(to_lower_char c = CHR ''t'') = (c = CHR ''t'' \<or> c = CHR ''T'')"
  unfolding letters_true by (rule to_lower_char_iff) simp_all

lemma lower_r: "(to_lower_char c = CHR ''r'') = (c = CHR ''r'' \<or> c = CHR ''R'')"
  unfolding letters_true by (rule to_lower_char_iff) simp_all

lemma lower_u: "(to_lower_char c = CHR ''u'') = (c = CHR ''u'' \<or> c = CHR ''U'')"
  unfolding letters_true by (rule to_lower_char_iff) simp_all

lemma lower_e: "(to_lower_char c = CHR ''e'') = (c = CHR ''e'' \<or> c = CHR ''E'')"
  unfolding letters_true by (rule to_lower_char_iff) simp_all

lemma toLowerCase_true_iff:
  "(toLowerCase v = ''true'') =
     (\<exists>a b c d. v = [a, b, c, d] \<and> (a = CHR ''t'' \<or> a = CHR ''T'') \<and> (b = CHR ''r'' \<or> b = CHR ''R'')
        \<and> (c = CHR ''u'' \<or> c = CHR ''U'') \<and> (d = CHR ''e'' \<or> d = CHR ''E''))"
proof -
  have "(toLowerCase v = ''true'') =
          (\<exists>a b c d. v = [a, b, c, d] \<and> to_lower_char a = CHR ''t'' \<and> to_lower_char b = CHR ''r''
             \<and> to_lower_char c = CHR ''u'' \<and> to_lower_char d = CHR ''e'')"
    by (auto simp: toLowerCase_def map_eq_Cons_conv)
  then show ?thesis by (simp only: lower_t lower_r lower_u lower_e)
qed

lemma unconfirmed_iff:
  "unconfirmed r = (\<not> (\<exists>v. x_confirm_destructive_operation r = Some v \<and> toLowerCase v = ''true''))"
  by (auto simp: unconfirmed_def toLowerCase_def split: option.splits)

text \<open>
  C10: the confirmation is read from the header \<open>x-confirm-destructive-operation\<close> and
  compared after lowering its case. A request counts as confirmed exactly when the header
  is present with a value whose lower-case form is \<open>true\<close>, which are the sixteen
  spellings of these four letters in either case; with any other value, or no header, the
  confirmation middleware of the delete routes rejects it with status 400 and type
  \<open>CONFIRMATION_REQUIRED\<close>, and so does the handler of \<open>updateRecords\<close> for a destructive
  update that is otherwise in order.
\<close>

theorem confirmation_header_lowered:
  "confirmDestructiveOperationMiddleware r =
     (if \<exists>v. x_confirm_destructive_operation r = Some v \<and> toLowerCase v = ''true''
      then Next r else Respond confirmation_required) \<and>
   (param r ''baseId'' \<noteq> [] \<and> param r ''tableIdOrName'' \<noteq> [] \<and>
    get_field (body r) ''records'' = Some (JArr rs) \<and> rs \<noteq> [] \<and> length rs \<le> 10 \<and>
    truthy (get_field (body r) ''destructive'') \<longrightarrow>
      (\<exists>call. updateRecords_handler r =
         (if \<exists>v. x_confirm_destructive_operation r = Some v \<and> toLowerCase v = ''true''
          then Inr call else Inl destructive_update_unconfirmed))) \<and>
   (toLowerCase v = ''true'') =
     (\<exists>a b c d. v = [a, b, c, d] \<and> (a = CHR ''t'' \<or> a = CHR ''T'') \<and> (b = CHR ''r'' \<or> b = CHR ''R'')
        \<and> (c = CHR ''u'' \<or> c = CHR ''U'') \<and> (d = CHR ''e'' \<or> d = CHR ''E'')) \<and>
   code confirmation_required = 400 \<and>
   (\<exists>m. content confirmation_required = ErrorBody (JStr ''CONFIRMATION_REQUIRED'') m None) \<and>
   code destructive_update_unconfirmed = 400 \<and>
   (\<exists>m. content destructive_update_unconfirmed = ErrorBody (JStr ''CONFIRMATION_REQUIRED'') m None)"
proof (intro conjI impI)
  show "confirmDestructiveOperationMiddleware r =
     (if \<exists>v. x_confirm_destructive_operation r = Some v \<and> toLowerCase v = ''true''
      then Next r else Respond confirmation_required)"
    by (simp add: confirmDestructiveOperationMiddleware_def unconfirmed_iff)
  show "(toLowerCase v = ''true'') =
     (\<exists>a b c d. v = [a, b, c, d] \<and> (a = CHR ''t'' \<or> a = CHR ''T'') \<and> (b = CHR ''r'' \<or> b = CHR ''R'')
        \<and> (c = CHR ''u'' \<or> c = CHR ''U'') \<and> (d = CHR ''e'' \<or> d = CHR ''E''))"
    by (rule toLowerCase_true_iff)
  show "code confirmation_required = 400"
    "\<exists>m. content confirmation_required = ErrorBody (JStr ''CONFIRMATION_REQUIRED'') m None"
    by (simp_all add: confirmation_required_def error_response_def)
  show "code destructive_update_unconfirmed = 400"
    "\<exists>m. content destructive_update_unconfirmed = ErrorBody (JStr ''CONFIRMATION_REQUIRED'') m None"
    by (simp_all add: destructive_update_unconfirmed_def error_response_def)
next
  assume "param r ''baseId'' \<noteq> [] \<and> param r ''tableIdOrName'' \<noteq> [] \<and>
    get_field (body r) ''records'' = Some (JArr rs) \<and> rs \<noteq> [] \<and> length rs \<le> 10 \<and>
    truthy (get_field (body r) ''destructive'')"
  then show "\<exists>call. updateRecords_handler r =
         (if \<exists>v. x_confirm_destructive_operation r = Some v \<and> toLowerCase v = ''true''
          then Inr call else Inl destructive_update_unconfirmed)"
    by (simp add: updateRecords_handler_def Let_def unconfirmed_iff)
qed

lemma lowered_examples:
  "toLowerCase ''TRUE'' = ''true''" "toLowerCase ''True'' = ''true''"
  "toLowerCase ''yes'' \<noteq> ''true''" "toLowerCase ''true '' \<noteq> ''true''"
  by code_simp+

theorem confirmation_header_lowered_witness:
  "toLowerCase ''TRUE'' = ''true'' \<and>
   confirmDestructiveOperationMiddleware
       (example_request\<lparr>x_confirm_destructive_operation := Some ''TRUE''\<rparr>) =
     Next (example_request\<lparr>x_confirm_destructive_operation := Some ''TRUE''\<rparr>) \<and>
   toLowerCase ''True'' = ''true'' \<and>
   confirmDestructiveOperationMiddleware
       (example_request\<lparr>x_confirm_destructive_operation := Some ''True''\<rparr>) =
     Next (example_request\<lparr>x_confirm_destructive_operation := Some ''True''\<rparr>) \<and>
   x_confirm_destructive_operation example_request = None \<and>
   confirmDestructiveOperationMiddleware example_request = Respond confirmation_required \<and>
   toLowerCase ''yes'' \<noteq> ''true'' \<and>
   confirmDestructiveOperationMiddleware
       (example_request\<lparr>x_confirm_destructive_operation := Some ''yes''\<rparr>) =
     Respond confirmation_required \<and>
   toLowerCase ''true '' \<noteq> ''true'' \<and>
   confirmDestructiveOperationMiddleware
       (example_request\<lparr>x_confirm_destructive_operation := Some ''true ''\<rparr>) =
     Respond confirmation_required \<and>
   truthy (get_field (body destructive_update_request) ''destructive'') \<and>
   updateRecords_handler destructive_update_request = Inl destructive_update_unconfirmed \<and>
   (\<exists>call. updateRecords_handler
       (destructive_update_request\<lparr>x_confirm_destructive_operation := Some ''TRUE''\<rparr>) = Inr call)"
proof -
  note chl = confirmation_header_lowered
  note mw = chl [THEN conjunct1]
  have x: "x_confirm_destructive_operation example_request = None"
    "x_confirm_destructive_operation destructive_update_request = None"
    by (simp_all add: example_defs)
  have c1: "confirmDestructiveOperationMiddleware
       (example_request\<lparr>x_confirm_destructive_operation := Some ''TRUE''\<rparr>) =
     Next (example_request\<lparr>x_confirm_destructive_operation := Some ''TRUE''\<rparr>)"
    using mw [of "example_request\<lparr>x_confirm_destructive_operation := Some ''TRUE''\<rparr>"]
    by (simp add: lowered_examples)
  have c2: "confirmDestructiveOperationMiddleware
       (example_request\<lparr>x_confirm_destructive_operation := Some ''True''\<rparr>) =
     Next (example_request\<lparr>x_confirm_destructive_operation := Some ''True''\<rparr>)"
    using mw [of "example_request\<lparr>x_confirm_destructive_operation := Some ''True''\<rparr>"]
    by (simp add: lowered_examples)
  have c3: "confirmDestructiveOperationMiddleware example_request = Respond confirmation_required"
    using mw [of example_request] by (simp add: x)
  have c4: "confirmDestructiveOperationMiddleware
       (example_request\<lparr>x_confirm_destructive_operation := Some ''yes''\<rparr>) =
     Respond confirmation_required"
    using mw [of "example_request\<lparr>x_confirm_destructive_operation := Some ''yes''\<rparr>"]
    by (simp add: lowered_examples)
  have c5: "confirmDestructiveOperationMiddleware
       (example_request\<lparr>x_confirm_destructive_operation := Some ''true ''\<rparr>) =
     Respond confirmation_required"
    using mw [of "example_request\<lparr>x_confirm_destructive_operation := Some ''true ''\<rparr>"]
    by (simp add: lowered_examples)
  have t: "truthy (get_field (body destructive_update_request) ''destructive'')"
    by (simp add: example_defs)
  have h: "param q ''baseId'' \<noteq> [] \<and> param q ''tableIdOrName'' \<noteq> [] \<and>
    get_field (body q) ''records'' = Some (JArr [JObj [(''id'', JStr ''rec1'')]]) \<and>
    [JObj [(''id'', JStr ''rec1'')]] \<noteq> [] \<and> length [JObj [(''id'', JStr ''rec1'')]] \<le> 10 \<and>
    truthy (get_field (body q) ''destructive'')"
    if "q = destructive_update_request\<lparr>x_confirm_destructive_operation := c\<rparr>" for q c
    using that by (simp add: example_defs param_def)
  have c6: "updateRecords_handler destructive_update_request = Inl destructive_update_unconfirmed"
    using chl [THEN conjunct2, THEN conjunct1, THEN mp, OF h [of destructive_update_request None]]
    by (simp add: x)
  have c7: "\<exists>call. updateRecords_handler
       (destructive_update_request\<lparr>x_confirm_destructive_operation := Some ''TRUE''\<rparr>) = Inr call"
    using chl [THEN conjunct2, THEN conjunct1, THEN mp, OF h [OF refl, of "Some ''TRUE''"]]
    by (simp add: lowered_examples)
  show ?thesis
    by (intro conjI lowered_examples c1 c2 x(1) c3 c4 c5 t c6 c7)
qed

section \<open>The responses\<close>

lemma authMiddleware_Respond: "authMiddleware r = Respond resp \<Longrightarrow> resp = authentication_required"
  by (auto simp: authMiddleware_def split: option.splits if_splits list.splits)

lemma featureCheckMiddleware_Respond:
  "featureCheckMiddleware f r = Respond resp \<Longrightarrow>
     resp = error_response 500 ''SERVER_ERROR'' ''Failed to check feature availability.'' \<or>
     (\<exists>p. getMinimumPlanForFeature f = Inr p \<and>
          resp = error_response 403 ''FEATURE_UNAVAILABLE''
                   (''This feature requires the '' @ p @ '' plan or higher.''))"
  by (auto simp: featureCheckMiddleware_def featureCheckMiddleware_in_def
      getMinimumPlanForFeature_def split: sum.splits bool.splits)

lemma scopeCheckMiddleware_Respond:
  "scopeCheckMiddleware e r = Respond resp \<Longrightarrow>
     resp = error_response 500 ''SERVER_ERROR'' ''Failed to check token scopes.'' \<or>
     resp = error_response 403 ''INSUFFICIENT_PERMISSIONS''
              (''This operation requires the following scopes: '' @
                 join '', '' (case requiredScopes_for e of None \<Rightarrow> [] | Some s \<Rightarrow> s))"
  by (auto simp: scopeCheckMiddleware_def split: sum.splits bool.splits)

lemma error_response_content:
  "content (error_response c ty msg) = ErrorBody (JStr ty) msg None"
  by (simp add: error_response_def)

lemma handler_Inl:
  "handler ep r = Inl resp \<Longrightarrow> (\<exists>m. resp = invalid_request m) \<or> resp = destructive_update_unconfirmed"
proof (cases ep)
  case createRecords
  assume "handler ep r = Inl resp"
  with createRecords show ?thesis
    by (auto simp: createRecords_handler_def Let_def split: if_splits)
next
  case updateRecords
  assume "handler ep r = Inl resp"
  with updateRecords show ?thesis
    by (auto simp: updateRecords_handler_def Let_def split: if_splits)
next
  case deleteRecords
  assume "handler ep r = Inl resp"
  with deleteRecords show ?thesis
    by (auto simp: deleteRecords_handler_def Let_def split: if_splits option.splits)
qed (auto simp: getBases_handler_def getBaseSchema_handler_def getTableRecords_handler_def
       getRecord_handler_def createField_handler_def updateField_handler_def
       listWebhooks_handler_def createWebhook_handler_def deleteWebhook_handler_def
       getAuditLogs_handler_def getEnterpriseUsers_handler_def Let_def split: if_splits)

lemma handleErrorResponse_content:
  "\<exists>ty msg det. content (handleErrorResponse err) = ErrorBody ty msg det"
  by (auto simp: handleErrorResponse_def error_response_def split: option.splits prod.splits)

lemma run_handler_shape:
  assumes "run_handler up ep r L = Some out"
  shows "(\<exists>d. sent out = \<lparr>code = 200, content = DataBody d\<rparr>) \<or>
         (\<exists>ty msg det. content (sent out) = ErrorBody ty msg det)"
proof (cases "handler ep r")
  case (Inl resp)
  with assms have "sent out = resp" by (auto simp: run_handler_def answered_def)
  with handler_Inl [OF Inl] show ?thesis
    by (auto simp: invalid_request_def destructive_update_unconfirmed_def error_response_def)
next
  case (Inr call)
  with assms obtain res n where "api up 0 = Some (res, n)"
    and s: "sent out = (case res of
                         Fulfilled d \<Rightarrow> \<lparr>code = 200, content = DataBody d\<rparr>
                       | Rejected e \<Rightarrow> handleErrorResponse (handleError e))"
    by (auto simp: run_handler_def split: option.splits prod.splits)
  show ?thesis
  proof (cases res)
    case (Fulfilled d)
    with s show ?thesis by simp
  next
    case (Rejected e)
    with s handleErrorResponse_content [of "handleError e"] show ?thesis by simp
  qed
qed

lemma serve_shape:
  assumes "serve up ep r L = Some out"
  shows "(\<exists>d. sent out = \<lparr>code = 200, content = DataBody d\<rparr>) \<or>
         (\<exists>ty msg det. content (sent out) = ErrorBody ty msg det) \<or>
         sent out = base_limit_reached \<or> sent out = user_limit_reached"
proof -
  obtain f e where fe: "FeatureCheckMiddleware f \<in> set (controller ep)"
    "ScopeCheckMiddleware e \<in> set (controller ep)"
    using controller_has_checks by blast
  show ?thesis
  proof (cases "authMiddleware r")
    case (Respond x)
    with assms serve_auth_reject [of r x up ep L] authMiddleware_Respond [of r x] show ?thesis
      by (auto simp: answered_def authentication_required_def error_response_def)
  next
    case (Next q1)
    show ?thesis
    proof (cases "featureCheckMiddleware f q1")
      case (Respond x)
      with assms serve_feature_reject [OF Next fe(1), of x up L]
        featureCheckMiddleware_Respond [of f q1 x]
      show ?thesis by (auto simp: answered_def error_response_def)
    next
      case n2: (Next q2)
      show ?thesis
      proof (cases "scopeCheckMiddleware e q2")
        case (Respond x)
        with assms serve_scope_reject [OF Next fe(1) n2 fe(2), of x up L]
          scopeCheckMiddleware_Respond [of e q2 x]
        show ?thesis by (auto simp: answered_def error_response_def)
      next
        case n3: (Next q3)
        show ?thesis
        proof (cases "ConfirmDestructiveOperationMiddleware \<in> set (controller ep) \<and> unconfirmed q3")
          case True
          with assms serve_stages [OF fe, of up r L] Next n2 n3
          have "sent out = confirmation_required" by (auto simp: answered_def)
          then show ?thesis by (simp add: confirmation_required_def error_response_def)
        next
          case False
          note stage = serve_limiter_stage [OF Next fe(1) n2 fe(2) n3 False, of up L]
          show ?thesis
          proof (cases "BaseRateLimitMiddleware \<in> set (controller ep)")
            case True
            show ?thesis
            proof (cases "rateLimit configureRateLimiter q3 (base_store L)")
              case (Pair x st)
              show ?thesis
              proof (cases x)
                case None
                with assms stage True Pair
                have "run_handler up ep q3 (L\<lparr>base_store := st\<rparr>) = Some out" by simp
                from run_handler_shape [OF this] show ?thesis by blast
              next
                case (Some resp)
                with assms stage True Pair have "sent out = resp" by (auto simp: answered_def)
                moreover from Pair Some have "resp = base_limit_reached"
                  by (auto dest!: rateLimit_Some simp: configureRateLimiter_def base_limit_reached_def)
                ultimately show ?thesis by simp
              qed
            qed
          next
            case nb: False
            show ?thesis
            proof (cases "rateLimit configureUserRateLimiter q3 (user_store L)")
              case (Pair x st)
              show ?thesis
              proof (cases x)
                case None
                with assms stage nb Pair
                have "run_handler up ep q3 (L\<lparr>user_store := st\<rparr>) = Some out" by simp
                from run_handler_shape [OF this] show ?thesis by blast
              next
                case (Some resp)
                with assms stage nb Pair have "sent out = resp" by (auto simp: answered_def)
                moreover from Pair Some have "resp = user_limit_reached"
                  by (auto dest!: rateLimit_Some
                      simp: configureUserRateLimiter_def user_limit_reached_def)
                ultimately show ?thesis by simp
              qed
            qed
          qed
        qed
      qed
    qed
  qed
qed

lemma handleError_enhanced:
  assumes "get_field d ''error'' = Some ed" and "truthy (Some ed)"
  shows "handleError (HttpError st (Some d)) =
     (case (case get_field ed ''message'' of
              None \<Rightarrow> Some ''Airtable API error''
            | Some m \<Rightarrow> if truthy (Some m) then js_string m else Some ''Airtable API error'') of
        None \<Rightarrow> Error ''Cannot convert object to primitive value''
      | Some msg \<Rightarrow>
          \<lparr>message = msg, status = Some st, etype = get_field ed ''type'', details = Some ed\<rparr>)"
  using assms by (cases d) (simp_all add: handleError_def)

text \<open>
  C6, as the code has it: the server has no \<open>ok\<close> flag and no single shape. A request
  is answered with the upstream data as it is and status 200, with an object
  \<open>{ error: { type, message, details } }\<close>, or, by a rate limiter, with status 429. The
  rejections of the stages come without details: the plan that a feature needs is named
  in the message text. \<open>handleErrorResponse\<close> is total: an error with a truthy status and
  type is sent with that status and type, its message and its details, so that the type
  of an upstream failure is whatever Airtable sent, with Airtable's message as a string
  or a default one; every other error is sent as \<open>SERVER_ERROR\<close> with status 500, among
  them the TypeError thrown when the upstream message has no string form.
\<close>

theorem response_shapes:
  "(serve up ep r L = Some out \<longrightarrow>
      (\<exists>d. sent out = \<lparr>code = 200, content = DataBody d\<rparr>) \<or>
      (\<exists>ty msg det. content (sent out) = ErrorBody ty msg det) \<or>
      code (sent out) = 429) \<and>
   (status err = Some st \<and> st \<noteq> 0 \<and> etype err = Some ty \<and> truthy (Some ty) \<longrightarrow>
      handleErrorResponse err =
        \<lparr>code = st, content = ErrorBody ty (message err) (details err)\<rparr>) \<and>
   (status err = None \<or> status err = Some 0 \<or> \<not> truthy (etype err) \<longrightarrow>
      handleErrorResponse err =
        error_response 500 ''SERVER_ERROR''
          (if message err \<noteq> [] then message err else ''An unexpected error occurred'')) \<and>
   (get_field d ''error'' = Some ed \<and> truthy (Some ed) \<and>
    get_field ed ''type'' = Some kind \<and> truthy (Some kind) \<and> st \<noteq> 0 \<longrightarrow>
      (\<not> truthy (get_field ed ''message'') \<longrightarrow>
         handleErrorResponse (handleError (HttpError st (Some d))) =
           \<lparr>code = st, content = ErrorBody kind ''Airtable API error'' (Some ed)\<rparr>) \<and>
      (get_field ed ''message'' = Some mv \<and> truthy (Some mv) \<and> js_string mv = Some msg \<longrightarrow>
         handleErrorResponse (handleError (HttpError st (Some d))) =
           \<lparr>code = st, content = ErrorBody kind msg (Some ed)\<rparr>) \<and>
      (get_field ed ''message'' = Some mv \<and> truthy (Some mv) \<and> js_string mv = None \<longrightarrow>
         handleErrorResponse (handleError (HttpError st (Some d))) =
           error_response 500 ''SERVER_ERROR'' ''Cannot convert object to primitive value'')) \<and>
   (authMiddleware r = Respond resp \<longrightarrow>
      code resp = 401 \<and> (\<exists>ty msg. content resp = ErrorBody ty msg None)) \<and>
   (featureCheckMiddleware f r = Respond resp \<longrightarrow>
      resp = error_response 500 ''SERVER_ERROR'' ''Failed to check feature availability.'' \<or>
      (\<exists>p. getMinimumPlanForFeature f = Inr p \<and>
           resp = error_response 403 ''FEATURE_UNAVAILABLE''
                    (''This feature requires the '' @ p @ '' plan or higher.''))) \<and>
   (scopeCheckMiddleware e r = Respond resp \<longrightarrow>
      resp = error_response 500 ''SERVER_ERROR'' ''Failed to check token scopes.'' \<or>
      resp = error_response 403 ''INSUFFICIENT_PERMISSIONS''
               (''This operation requires the following scopes: '' @
                  join '', '' (case requiredScopes_for e of None \<Rightarrow> [] | Some s \<Rightarrow> s))) \<and>
   (rateLimit opts r st0 = (Some resp, st1) \<longrightarrow> code resp = 429) \<and>
   (handler ep r = Inl resp \<longrightarrow>
      (\<exists>m. resp = error_response 400 ''INVALID_REQUEST'' m) \<or>
      resp = destructive_update_unconfirmed) \<and>
   (confirmDestructiveOperationMiddleware r = Respond resp \<longrightarrow> resp = confirmation_required) \<and>
   (\<exists>msg. confirmation_required = error_response 400 ''CONFIRMATION_REQUIRED'' msg) \<and>
   (\<exists>msg. destructive_update_unconfirmed = error_response 400 ''CONFIRMATION_REQUIRED'' msg) \<and>
   error_response c t m = \<lparr>code = c, content = ErrorBody (JStr t) m None\<rparr> \<and>
   (handler ep r = Inr call \<and> api up 0 = Some (res, n) \<longrightarrow>
      (\<exists>out. run_handler up ep r L = Some out \<and>
         sent out = (case res of
                       Fulfilled d \<Rightarrow> \<lparr>code = 200, content = DataBody d\<rparr>
                     | Rejected e \<Rightarrow> handleErrorResponse (handleError e))))"
proof (intro conjI impI)
  assume "handler ep r = Inr call \<and> api up 0 = Some (res, n)"
  then show "\<exists>out. run_handler up ep r L = Some out \<and>
         sent out = (case res of
                       Fulfilled d \<Rightarrow> \<lparr>code = 200, content = DataBody d\<rparr>
                     | Rejected e \<Rightarrow> handleErrorResponse (handleError e))"
    by (simp add: run_handler_def)
next
  assume "serve up ep r L = Some out"
  from serve_shape [OF this]
  show "(\<exists>d. sent out = \<lparr>code = 200, content = DataBody d\<rparr>) \<or>
      (\<exists>ty msg det. content (sent out) = ErrorBody ty msg det) \<or>
      code (sent out) = 429"
    by (auto simp: base_limit_reached_def user_limit_reached_def)
next
  assume "status err = Some st \<and> st \<noteq> 0 \<and> etype err = Some ty \<and> truthy (Some ty)"
  then show "handleErrorResponse err =
        \<lparr>code = st, content = ErrorBody ty (message err) (details err)\<rparr>"
    by (simp add: handleErrorResponse_def)
next
  assume "status err = None \<or> status err = Some 0 \<or> \<not> truthy (etype err)"
  then show "handleErrorResponse err =
        error_response 500 ''SERVER_ERROR''
          (if message err \<noteq> [] then message err else ''An unexpected error occurred'')"
    by (auto simp: handleErrorResponse_def split: option.splits)
next
  assume a: "get_field d ''error'' = Some ed \<and> truthy (Some ed) \<and>
    get_field ed ''type'' = Some kind \<and> truthy (Some kind) \<and> st \<noteq> 0"
    and b: "\<not> truthy (get_field ed ''message'')"
  from a have "handleError (HttpError st (Some d)) =
      \<lparr>message = ''Airtable API error'', status = Some st, etype = Some kind, details = Some ed\<rparr>"
    using b by (cases "get_field ed ''message''") (simp_all add: handleError_enhanced)
  with a show "handleErrorResponse (handleError (HttpError st (Some d))) =
           \<lparr>code = st, content = ErrorBody kind ''Airtable API error'' (Some ed)\<rparr>"
    by (simp add: handleErrorResponse_def)
next
  assume a: "get_field d ''error'' = Some ed \<and> truthy (Some ed) \<and>
    get_field ed ''type'' = Some kind \<and> truthy (Some kind) \<and> st \<noteq> 0"
    and b: "get_field ed ''message'' = Some mv \<and> truthy (Some mv) \<and> js_string mv = Some msg"
  then have "handleError (HttpError st (Some d)) =
      \<lparr>message = msg, status = Some st, etype = Some kind, details = Some ed\<rparr>"
    by (simp add: handleError_enhanced)
  with a show "handleErrorResponse (handleError (HttpError st (Some d))) =
           \<lparr>code = st, content = ErrorBody kind msg (Some ed)\<rparr>"
    by (simp add: handleErrorResponse_def)
next
  assume a: "get_field d ''error'' = Some ed \<and> truthy (Some ed) \<and>
    get_field ed ''type'' = Some kind \<and> truthy (Some kind) \<and> st \<noteq> 0"
    and b: "get_field ed ''message'' = Some mv \<and> truthy (Some mv) \<and> js_string mv = None"
  then have "handleError (HttpError st (Some d)) =
      Error ''Cannot convert object to primitive value''"
    by (simp add: handleError_enhanced)
  then show "handleErrorResponse (handleError (HttpError st (Some d))) =
           error_response 500 ''SERVER_ERROR'' ''Cannot convert object to primitive value''"
    by (simp add: handleErrorResponse_def Error_def)
next
  assume "authMiddleware r = Respond resp"
  then have "resp = authentication_required" by (rule authMiddleware_Respond)
  then show "code resp = 401" "\<exists>ty msg. content resp = ErrorBody ty msg None"
    by (simp_all add: authentication_required_def error_response_def)
next
  assume "featureCheckMiddleware f r = Respond resp"
  then show "resp = error_response 500 ''SERVER_ERROR'' ''Failed to check feature availability.'' \<or>
      (\<exists>p. getMinimumPlanForFeature f = Inr p \<and>
           resp = error_response 403 ''FEATURE_UNAVAILABLE''
                    (''This feature requires the '' @ p @ '' plan or higher.''))"
    by (rule featureCheckMiddleware_Respond)
next
  assume "scopeCheckMiddleware e r = Respond resp"
  then show "resp = error_response 500 ''SERVER_ERROR'' ''Failed to check token scopes.'' \<or>
      resp = error_response 403 ''INSUFFICIENT_PERMISSIONS''
               (''This operation requires the following scopes: '' @
                  join '', '' (case requiredScopes_for e of None \<Rightarrow> [] | Some s \<Rightarrow> s))"
    by (rule scopeCheckMiddleware_Respond)
next
  assume "rateLimit opts r st0 = (Some resp, st1)"
  then show "code resp = 429"
    by (auto dest: rateLimit_Some)
next
  assume "handler ep r = Inl resp"
  from handler_Inl [OF this]
  show "(\<exists>m. resp = error_response 400 ''INVALID_REQUEST'' m) \<or>
      resp = destructive_update_unconfirmed"
    by (simp add: invalid_request_def)
next
  assume "confirmDestructiveOperationMiddleware r = Respond resp"
  then show "resp = confirmation_required"
    by (auto simp: confirmDestructiveOperationMiddleware_def split: if_splits)
next
  show "\<exists>msg. confirmation_required = error_response 400 ''CONFIRMATION_REQUIRED'' msg"
    unfolding confirmation_required_def by (rule exI) (rule refl)
next
  show "\<exists>msg. destructive_update_unconfirmed = error_response 400 ''CONFIRMATION_REQUIRED'' msg"
    unfolding destructive_update_unconfirmed_def by (rule exI) (rule refl)
next
  show "error_response c t m = \<lparr>code = c, content = ErrorBody (JStr t) m None\<rparr>"
    by (simp add: error_response_def)
qed

lemma model_not_found_served:
  "serve model_not_found getBaseSchema example_request no_traffic =
     Some \<lparr>sent = \<lparr>code = 404,
                    content = ErrorBody (JStr ''MODEL_ID_NOT_FOUND'') ''Could not find table''
                      (Some (JObj [(''type'', JStr ''MODEL_ID_NOT_FOUND''),
                                   (''message'', JStr ''Could not find table'')]))\<rparr>,
           stores = no_traffic\<lparr>base_store := [''203.0.113.7'' \<mapsto> \<lparr>windowStart = 100, count = 1\<rparr>]\<rparr>,
           invoked = Some (Provider getBaseSchema [AStr ''app1'']), attempts = 1, waited = 0\<rparr>"
  by (simp add: serve_def middleware_defs example_defs run_handler_def getBaseSchema_handler_def
      api.simps model_not_found_def handleError_def handleErrorResponse_def)

lemma free_plan_served:
  "serve always_ok createField free_plan_request no_traffic =
     Some (answered \<lparr>code = 403, content = ErrorBody (JStr ''FEATURE_UNAVAILABLE'')
             ''This feature requires the enterprise_scale plan or higher.'' None\<rparr> no_traffic)"
  by (simp add: serve_def middleware_defs variant_defs example_defs error_response_def)

theorem response_shapes_witness:
  "serve always_ok getBaseSchema example_request no_traffic =
     Some \<lparr>sent = \<lparr>code = 200, content = DataBody (Some (JObj []))\<rparr>,
           stores = no_traffic\<lparr>base_store := [''203.0.113.7'' \<mapsto> \<lparr>windowStart = 100, count = 1\<rparr>]\<rparr>,
           invoked = Some (Provider getBaseSchema [AStr ''app1'']), attempts = 1, waited = 0\<rparr> \<and>
   ((\<exists>d. \<lparr>code = 200, content = DataBody (Some (JObj []))\<rparr> = \<lparr>code = 200, content = DataBody d\<rparr>) \<or>
    (\<exists>ty msg det. content \<lparr>code = 200, content = DataBody (Some (JObj []))\<rparr> = ErrorBody ty msg det) \<or>
    code \<lparr>code = 200, content = DataBody (Some (JObj []))\<rparr> = 429) \<and>
   handleErrorResponse \<lparr>message = ''Could not find table'', status = Some 404,
       etype = Some (JStr ''MODEL_ID_NOT_FOUND''), details = Some (JObj [])\<rparr> =
     \<lparr>code = 404, content = ErrorBody (JStr ''MODEL_ID_NOT_FOUND'') ''Could not find table''
         (Some (JObj []))\<rparr> \<and>
   handleErrorResponse (Error ''No response received from Airtable API'') =
     error_response 500 ''SERVER_ERROR'' ''No response received from Airtable API'' \<and>
   handleErrorResponse (handleError (HttpError 404 (Some (JObj [(''error'',
       JObj [(''type'', JStr ''MODEL_ID_NOT_FOUND''), (''message'', JStr ''Could not find table'')])])))) =
     \<lparr>code = 404, content = ErrorBody (JStr ''MODEL_ID_NOT_FOUND'') ''Could not find table''
         (Some (JObj [(''type'', JStr ''MODEL_ID_NOT_FOUND''),
                      (''message'', JStr ''Could not find table'')]))\<rparr> \<and>
   handleErrorResponse (handleError (HttpError 422 (Some (JObj [(''error'',
       JObj [(''type'', JNum ''7''), (''message'', JArr [JNum ''1'', JNull, JStr ''x''])])])))) =
     \<lparr>code = 422, content = ErrorBody (JNum ''7'') ''1,,x''
         (Some (JObj [(''type'', JNum ''7''), (''message'', JArr [JNum ''1'', JNull, JStr ''x''])]))\<rparr> \<and>
   handleErrorResponse (handleError (HttpError 422 (Some (JObj [(''error'',
       JObj [(''type'', JStr ''INVALID_VALUE''), (''message'', JObj [(''toString'', JNull)])])])))) =
     error_response 500 ''SERVER_ERROR'' ''Cannot convert object to primitive value'' \<and>
   authMiddleware anonymous_request = Respond authentication_required \<and>
   code authentication_required = 401 \<and>
   featureCheckMiddleware SCHEMA_MODIFICATION
       (example_authenticated\<lparr>billingPlan := Some ''free''\<rparr>) =
     Respond (error_response 403 ''FEATURE_UNAVAILABLE''
       ''This feature requires the enterprise_scale plan or higher.'') \<and>
   scopeCheckMiddleware ''createRecords''
       (example_authenticated\<lparr>tokenScopes := Some [''data.records:read'']\<rparr>) =
     Respond (error_response 403 ''INSUFFICIENT_PERMISSIONS''
       ''This operation requires the following scopes: data.records:write'') \<and>
   rateLimit configureRateLimiter example_authenticated (base_store base_exhausted) =
     (Some base_limit_reached, base_store base_exhausted) \<and>
   code base_limit_reached = 429 \<and>
   handler createRecords (batch_request 11) =
     Inl (error_response 400 ''INVALID_REQUEST''
       ''Maximum of 10 records can be created in a single request'') \<and>
   confirmDestructiveOperationMiddleware example_request = Respond confirmation_required \<and>
   handler getBaseSchema example_authenticated = Inr (Provider getBaseSchema [AStr ''app1'']) \<and>
   api always_ok 0 = Some (Fulfilled (Some (JObj [])), 0) \<and>
   (\<exists>out. run_handler always_ok getBaseSchema example_authenticated no_traffic = Some out \<and>
      sent out = \<lparr>code = 200, content = DataBody (Some (JObj []))\<rparr>)"
proof -
  let ?ok = "\<lparr>code = 200, content = DataBody (Some (JObj []))\<rparr>"
  let ?nf = "\<lparr>message = ''Could not find table'', status = Some 404,
       etype = Some (JStr ''MODEL_ID_NOT_FOUND''), details = Some (JObj [])\<rparr>"
  let ?e1 = "JObj [(''type'', JStr ''MODEL_ID_NOT_FOUND''), (''message'', JStr ''Could not find table'')]"
  let ?e2 = "JObj [(''type'', JNum ''7''), (''message'', JArr [JNum ''1'', JNull, JStr ''x''])]"
  let ?e3 = "JObj [(''type'', JStr ''INVALID_VALUE''), (''message'', JObj [(''toString'', JNull)])]"
  note rs = response_shapes
  have c1: "(\<exists>d. ?ok = \<lparr>code = 200, content = DataBody d\<rparr>) \<or>
    (\<exists>ty msg det. content ?ok = ErrorBody ty msg det) \<or> code ?ok = 429"
    using rs [THEN conjunct1, THEN mp, OF getBaseSchema_served] by simp
  have h2: "status ?nf = Some 404 \<and> (404::nat) \<noteq> 0 \<and> etype ?nf = Some (JStr ''MODEL_ID_NOT_FOUND'') \<and>
      truthy (Some (JStr ''MODEL_ID_NOT_FOUND''))"
    by simp
  have c2: "handleErrorResponse ?nf =
     \<lparr>code = 404, content = ErrorBody (JStr ''MODEL_ID_NOT_FOUND'') ''Could not find table''
         (Some (JObj []))\<rparr>"
    using rs [THEN conjunct2, THEN conjunct1, THEN mp, OF h2] by simp
  have h3: "status (Error ''No response received from Airtable API'') = None \<or>
      status (Error ''No response received from Airtable API'') = Some 0 \<or>
      \<not> truthy (etype (Error ''No response received from Airtable API''))"
    by (simp add: Error_def)
  have c3: "handleErrorResponse (Error ''No response received from Airtable API'') =
     error_response 500 ''SERVER_ERROR'' ''No response received from Airtable API''"
    using rs [THEN conjunct2, THEN conjunct2, THEN conjunct1, THEN mp, OF h3]
    by (simp add: Error_def)
  note up = rs [THEN conjunct2, THEN conjunct2, THEN conjunct2, THEN conjunct1]
  have g1: "get_field (JObj [(''error'', ?e1)]) ''error'' = Some ?e1 \<and> truthy (Some ?e1) \<and>
      get_field ?e1 ''type'' = Some (JStr ''MODEL_ID_NOT_FOUND'') \<and>
      truthy (Some (JStr ''MODEL_ID_NOT_FOUND'')) \<and> (404::nat) \<noteq> 0"
    and m1: "get_field ?e1 ''message'' = Some (JStr ''Could not find table'') \<and>
      truthy (Some (JStr ''Could not find table'')) \<and>
      js_string (JStr ''Could not find table'') = Some ''Could not find table''"
    by simp_all
  note u1 = up [THEN mp, OF g1, THEN conjunct2, THEN conjunct1, THEN mp, OF m1]
  have g2: "get_field (JObj [(''error'', ?e2)]) ''error'' = Some ?e2 \<and> truthy (Some ?e2) \<and>
      get_field ?e2 ''type'' = Some (JNum ''7'') \<and> truthy (Some (JNum ''7'')) \<and> (422::nat) \<noteq> 0"
    and m2: "get_field ?e2 ''message'' = Some (JArr [JNum ''1'', JNull, JStr ''x'']) \<and>
      truthy (Some (JArr [JNum ''1'', JNull, JStr ''x''])) \<and>
      js_string (JArr [JNum ''1'', JNull, JStr ''x'']) = Some ''1,,x''"
    by simp_all
  note u2 = up [THEN mp, OF g2, THEN conjunct2, THEN conjunct1, THEN mp, OF m2]
  have g3: "get_field (JObj [(''error'', ?e3)]) ''error'' = Some ?e3 \<and> truthy (Some ?e3) \<and>
      get_field ?e3 ''type'' = Some (JStr ''INVALID_VALUE'') \<and>
      truthy (Some (JStr ''INVALID_VALUE'')) \<and> (422::nat) \<noteq> 0"
    and m3: "get_field ?e3 ''message'' = Some (JObj [(''toString'', JNull)]) \<and>
      truthy (Some (JObj [(''toString'', JNull)])) \<and>
      js_string (JObj [(''toString'', JNull)]) = None"
    by simp_all
  note u3 = up [THEN mp, OF g3, THEN conjunct2, THEN conjunct2, THEN mp, OF m3]
  note rs5 = rs [THEN conjunct2, THEN conjunct2, THEN conjunct2, THEN conjunct2]
  have a4: "authMiddleware anonymous_request = Respond authentication_required"
    by (simp add: authMiddleware_def variant_defs)
  have c4: "code authentication_required = 401"
    using rs5 [THEN conjunct1, THEN mp, OF a4] by (rule conjunct1)
  have c5: "featureCheckMiddleware SCHEMA_MODIFICATION
       (example_authenticated\<lparr>billingPlan := Some ''free''\<rparr>) =
     Respond (error_response 403 ''FEATURE_UNAVAILABLE''
       ''This feature requires the enterprise_scale plan or higher.'')"
    by (simp add: middleware_defs example_defs)
  have c6: "scopeCheckMiddleware ''createRecords''
       (example_authenticated\<lparr>tokenScopes := Some [''data.records:read'']\<rparr>) =
     Respond (error_response 403 ''INSUFFICIENT_PERMISSIONS''
       ''This operation requires the following scopes: data.records:write'')"
    by (simp add: middleware_defs example_defs)
  have c7: "rateLimit configureRateLimiter example_authenticated (base_store base_exhausted) =
     (Some base_limit_reached, base_store base_exhausted)"
    by (simp add: middleware_defs example_defs)
  note c7' = rs5 [THEN conjunct2, THEN conjunct2, THEN conjunct2, THEN conjunct1, THEN mp, OF c7]
  have c8: "handler createRecords (batch_request 11) =
     Inl (error_response 400 ''INVALID_REQUEST''
       ''Maximum of 10 records can be created in a single request'')"
    by (simp add: createRecords_handler_def invalid_request_def param_def batch_request_def
        example_request_def)
  have c9: "confirmDestructiveOperationMiddleware example_request = Respond confirmation_required"
    by (simp add: confirmDestructiveOperationMiddleware_def unconfirmed_def example_request_def)
  have h10: "handler getBaseSchema example_authenticated = Inr (Provider getBaseSchema [AStr ''app1''])"
    by (simp add: getBaseSchema_handler_def param_def example_defs)
  have a10: "api always_ok 0 = Some (Fulfilled (Some (JObj [])), 0)"
    by (simp add: api.simps always_ok_def)
  have c10: "\<exists>out. run_handler always_ok getBaseSchema example_authenticated no_traffic = Some out \<and>
      sent out = \<lparr>code = 200, content = DataBody (Some (JObj []))\<rparr>"
    using response_shapes [where up = always_ok and ep = getBaseSchema and r = example_authenticated
        and L = no_traffic and res = "Fulfilled (Some (JObj []))" and n = 0
        and call = "Provider getBaseSchema [AStr ''app1'']",
        THEN conjunct2, THEN conjunct2, THEN conjunct2, THEN conjunct2, THEN conjunct2,
        THEN conjunct2, THEN conjunct2, THEN conjunct2, THEN conjunct2, THEN conjunct2,
        THEN conjunct2, THEN conjunct2, THEN conjunct2, THEN mp, OF conjI [OF h10 a10]]
    by simp
  show ?thesis
    by (intro conjI getBaseSchema_served c1 c2 c3 u1 u2 u3 a4 c4 c5 c6 c7 c7' c8 c9 h10 a10 c10)
qed

theorem responses_of_other_shapes:
  "serve always_ok getBaseSchema example_request no_traffic =
     Some \<lparr>sent = \<lparr>code = 200, content = DataBody (Some (JObj []))\<rparr>,
           stores = no_traffic\<lparr>base_store := [''203.0.113.7'' \<mapsto> \<lparr>windowStart = 100, count = 1\<rparr>]\<rparr>,
           invoked = Some (Provider getBaseSchema [AStr ''app1'']), attempts = 1, waited = 0\<rparr> \<and>
   get_field (JObj []) ''ok'' = None \<and>
   serve model_not_found getBaseSchema example_request no_traffic =
     Some \<lparr>sent = \<lparr>code = 404,
                    content = ErrorBody (JStr ''MODEL_ID_NOT_FOUND'') ''Could not find table''
                      (Some (JObj [(''type'', JStr ''MODEL_ID_NOT_FOUND''),
                                   (''message'', JStr ''Could not find table'')]))\<rparr>,
           stores = no_traffic\<lparr>base_store := [''203.0.113.7'' \<mapsto> \<lparr>windowStart = 100, count = 1\<rparr>]\<rparr>,
           invoked = Some (Provider getBaseSchema [AStr ''app1'']), attempts = 1, waited = 0\<rparr> \<and>
   ''MODEL_ID_NOT_FOUND'' \<notin> set documented_error_types \<and>
   serve always_ok createField free_plan_request no_traffic =
     Some (answered \<lparr>code = 403, content = ErrorBody (JStr ''FEATURE_UNAVAILABLE'')
             ''This feature requires the enterprise_scale plan or higher.'' None\<rparr> no_traffic)"
proof -
  have "''MODEL_ID_NOT_FOUND'' \<notin> set documented_error_types"
    by (simp add: documented_error_types_def)
  moreover have "get_field (JObj []) ''ok'' = None" by simp
  ultimately show ?thesis
    using getBaseSchema_served model_not_found_served free_plan_served
    by (intro conjI)
qed

end
